theory Spec2Isabelle
  imports Complex_Main "HOL-Library.Sublist"
begin

section \<open>JavaScript numbers and values\<close>

text \<open>
  A JavaScript number is a double.  The model keeps the three kinds of non-finite
  value apart from the finite ones and idealises a finite double as a real number
  (no rounding error of the floating-point operations is modelled).  A value of
  type \<open>jsnum\<close> is what \<^verbatim>\<open>Number(v)\<close> gives for a request field or a computed
  quantity \<open>v\<close>.
\<close>

datatype jsnum = Fin real | NaN | PInf | NInf

text \<open>\<^verbatim>\<open>isNaN(v)\<close> and \<^verbatim>\<open>isFinite(v)\<close>.\<close>

fun isNaN :: "jsnum \<Rightarrow> bool" where
  "isNaN NaN = True"
| "isNaN _ = False"

fun isFinite :: "jsnum \<Rightarrow> bool" where
  "isFinite (Fin r) = True"
| "isFinite _ = False"

text \<open>\<^verbatim>\<open>a / b\<close> on finite numbers: division by zero gives an infinity or NaN.\<close>

definition js_div :: "real \<Rightarrow> real \<Rightarrow> jsnum" where
  "js_div a b =
     (if b \<noteq> 0 then Fin (a / b)
      else if a > 0 then PInf
      else if a < 0 then NInf
      else NaN)"

text \<open>\<^verbatim>\<open>v * c\<close> for a finite \<open>c\<close>.\<close>

fun js_times :: "jsnum \<Rightarrow> real \<Rightarrow> jsnum" where
  "js_times (Fin a) c = Fin (a * c)"
| "js_times NaN c = NaN"
| "js_times PInf c = (if c > 0 then PInf else if c < 0 then NInf else NaN)"
| "js_times NInf c = (if c > 0 then NInf else if c < 0 then PInf else NaN)"

text \<open>\<^verbatim>\<open>Math.round(v)\<close> is \<open>\<lfloor>v + 1/2\<rfloor>\<close>, which is \<^const>\<open>round\<close>.\<close>

fun js_round :: "jsnum \<Rightarrow> jsnum" where
  "js_round (Fin a) = Fin (real_of_int (round a))"
| "js_round v = v"

fun js_abs :: "jsnum \<Rightarrow> jsnum" where
  "js_abs (Fin a) = Fin \<bar>a\<bar>"
| "js_abs NaN = NaN"
| "js_abs PInf = PInf"
| "js_abs NInf = PInf"

fun js_plus :: "jsnum \<Rightarrow> real \<Rightarrow> jsnum" where
  "js_plus (Fin a) c = Fin (a + c)"
| "js_plus v c = v"

text \<open>\<^verbatim>\<open>v - w\<close>.\<close>

fun js_minus :: "jsnum \<Rightarrow> jsnum \<Rightarrow> jsnum" where
  "js_minus (Fin a) (Fin b) = Fin (a - b)"
| "js_minus NaN w = NaN"
| "js_minus v NaN = NaN"
| "js_minus PInf PInf = NaN"
| "js_minus NInf NInf = NaN"
| "js_minus PInf w = PInf"
| "js_minus NInf w = NInf"
| "js_minus (Fin a) PInf = NInf"
| "js_minus (Fin a) NInf = PInf"

text \<open>\<^verbatim>\<open>v / c\<close> for a finite \<open>c\<close> (a zero \<open>c\<close> is the positive zero).\<close>

fun js_divide :: "jsnum \<Rightarrow> real \<Rightarrow> jsnum" where
  "js_divide (Fin a) c = js_div a c"
| "js_divide NaN c = NaN"
| "js_divide PInf c = (if c \<ge> 0 then PInf else NInf)"
| "js_divide NInf c = (if c \<ge> 0 then NInf else PInf)"

text \<open>Truthiness of a number, as in \<^verbatim>\<open>if (pen.height)\<close>: 0 and NaN are falsy.\<close>

fun js_truthy :: "jsnum \<Rightarrow> bool" where
  "js_truthy (Fin a) = (a \<noteq> 0)"
| "js_truthy NaN = False"
| "js_truthy v = True"

text \<open>The comparison \<^verbatim>\<open>v >= c\<close> (false for NaN).\<close>

fun js_ge :: "jsnum \<Rightarrow> real \<Rightarrow> bool" where
  "js_ge (Fin a) c = (a \<ge> c)"
| "js_ge PInf c = True"
| "js_ge _ c = False"

text \<open>
  \<^verbatim>\<open>parseInt(v)\<close> of a finite number cuts the fraction off (towards zero).
  (For a number below \<open>10\<^sup>-\<^sup>6\<close> in absolute value JavaScript parses the
  exponent notation of its decimal string instead; this string effect is not modelled.)
\<close>

definition parseInt_num :: "real \<Rightarrow> int" where
  "parseInt_num r = (if r \<ge> 0 then \<lfloor>r\<rfloor> else \<lceil>r\<rceil>)"

text \<open>
  The pen state and the height input are either a number or a word.
  \<open>SNum r\<close> stands for a finite number, or a numeric string, which JavaScript
  coerces to \<open>r\<close> in every use made of it (\<^verbatim>\<open>parseInt\<close> is not NaN,
  \<^verbatim>\<open>parseFloat\<close> and \<^verbatim>\<open>Number\<close> give \<open>r\<close>).
  \<open>SName s\<close> stands for a string \<open>s\<close> that is not numeric (\<^verbatim>\<open>parseInt(s)\<close> and
  \<^verbatim>\<open>Number(s)\<close> are NaN), such as \<^verbatim>\<open>'up'\<close> or \<^verbatim>\<open>'paint'\<close>.
\<close>

datatype pstate = SNum real | SName string

text \<open>Truthiness, as in \<^verbatim>\<open>if (pen.state)\<close>.\<close>

fun truthy :: "pstate \<Rightarrow> bool" where
  "truthy (SNum r) = (r \<noteq> 0)"
| "truthy (SName s) = (s \<noteq> [])"

text \<open>Loose equality \<^verbatim>\<open>a == b\<close>: a non-numeric string never equals a number.\<close>

fun loose_eq :: "pstate \<Rightarrow> pstate \<Rightarrow> bool" where
  "loose_eq (SNum a) (SNum b) = (a = b)"
| "loose_eq (SName s) (SName t) = (s = t)"
| "loose_eq _ _ = False"

section \<open>State\<close>

text \<open>The global \<^verbatim>\<open>pen\<close> object.\<close>

record pen =
  pen_x :: real
  pen_y :: real
  pen_state :: pstate
  pen_height :: jsnum
  pen_busy :: bool
  pen_tool :: string
  pen_lastDuration :: jsnum
  pen_distanceCounter :: real
  pen_simulation :: bool

text \<open>The commands of the board, as \<^verbatim>\<open>serialCommand\<close> receives them.\<close>

datatype command =
    SC int jsnum          \<comment> \<open>\<^verbatim>\<open>'SC,' + id + ',' + value\<close>\<close>
  | SP int                \<comment> \<open>\<^verbatim>\<open>'SP,' + n\<close>\<close>
  | SM jsnum int int      \<comment> \<open>\<^verbatim>\<open>'SM,' + duration + ',' + x + ',' + y\<close>\<close>
  | EM_off                \<comment> \<open>\<^verbatim>\<open>'EM,0,0'\<close>\<close>

text \<open>
  The tool entries of the bot configuration, and the configuration values the
  controller reads (\<^verbatim>\<open>BOT\<close>, \<^verbatim>\<open>botConf\<close>, \<^verbatim>\<open>gConf\<close>).  The presets \<^verbatim>\<open>up\<close> and
  \<^verbatim>\<open>paint\<close>, which the code reads by name, are fields; every other preset is in
  \<open>presets_other\<close>.  The values of an ini file are non-empty numeric strings, hence
  truthy; the model holds the numbers they parse to.
\<close>

record tool =
  tool_x :: jsnum
  tool_y :: jsnum
  wiggleAxis :: string
  wiggleTravel :: real
  wiggleIterations :: int

record config =
  workArea_left :: real
  workArea_top :: real
  maxArea_width :: real
  maxArea_height :: real
  servo_min :: int
  servo_max :: int
  preset_up :: real
  preset_paint :: real
  presets_other :: "string \<rightharpoonup> real"
  servo_duration :: real
  speed_drawing :: real
  speed_moving :: real
  invertAxis_x :: bool
  invertAxis_y :: bool
  swapMotors :: bool
  tools :: "string \<rightharpoonup> tool"

text \<open>
  The state of the controller: the pen, whether \<^verbatim>\<open>serialPort.write\<close> exists, and
  whether a port can be opened (the outcome of \<^verbatim>\<open>connectSerial\<close>).  Three logs run
  along: the points given to \<^verbatim>\<open>movePenAbs\<close>, the commands given to
  \<^verbatim>\<open>serialCommand\<close>, and the commands written to the serial port.
\<close>

record machine =
  pen :: pen
  serialReady :: bool
  portAvailable :: bool
  moves :: "(jsnum \<times> jsnum) list"
  issued :: "command list"
  written :: "command list"

text \<open>
  What became of the completion callback: called with a value, not called, or the
  operation threw.  A callback that the code calls from \<^verbatim>\<open>setTimeout\<close> counts as
  called; the delay is not modelled.
\<close>

datatype outcome = Called bool | NotCalled | TypeError

section \<open>Serial commands\<close>

text \<open>
  \<^verbatim>\<open>serialCommand(command, callback)\<close>: the callback, when there is one, always
  receives \<^verbatim>\<open>true\<close>; the result is the new state and that value.
\<close>

definition serialCommand :: "command \<Rightarrow> machine \<Rightarrow> machine \<times> bool" where
  "serialCommand c m =
     (let m1 = m\<lparr>issued := issued m @ [c]\<rparr> in
      if \<not> serialReady m \<and> \<not> pen_simulation (pen m) then (m1, True)
      else if \<not> pen_simulation (pen m) then (m1\<lparr>written := written m @ [c]\<rparr>, True)
      else (m1, True))"

definition sendSetup :: "int \<Rightarrow> jsnum \<Rightarrow> machine \<Rightarrow> machine" where
  "sendSetup ident v m = fst (serialCommand (SC ident v) m)"

section \<open>Moving the pen\<close>

text \<open>The two clamping assignments of \<^verbatim>\<open>movePenAbs\<close> on one coordinate.\<close>

fun clamp_coord :: "real \<Rightarrow> jsnum \<Rightarrow> jsnum" where
  "clamp_coord bound (Fin r) =
     (let r1 = (if r > bound then bound else r) in Fin (if r1 < 0 then 0 else r1))"
| "clamp_coord bound PInf = Fin (if bound < 0 then 0 else bound)"
| "clamp_coord bound NInf = Fin 0"
| "clamp_coord bound NaN = NaN"

text \<open>The duration of a move, lines 674 to 677.\<close>

definition move_duration :: "real \<Rightarrow> real \<Rightarrow> jsnum" where
  "move_duration distance speed =
     (let duration = js_abs (js_round (js_times (js_div distance speed) 1000))
      in if duration = Fin 0 then Fin 1 else duration)"

text \<open>
  \<^verbatim>\<open>movePenAbs(point, callback, immediate)\<close> gives the new state, what became of
  the callback, and the returned distance.  The flag \<open>immediate\<close> only chooses
  between calling back at once and calling back from a timer.
\<close>

definition movePenAbs ::
  "config \<Rightarrow> jsnum \<times> jsnum \<Rightarrow> bool \<Rightarrow> machine \<Rightarrow> machine \<times> outcome \<times> real" where
  "movePenAbs cfg point immediate m0 =
     (let m = m0\<lparr>moves := moves m0 @ [point]\<rparr> in
      if isNaN (fst point) \<or> isNaN (snd point) then (m, Called False, 0)
      else
        case (clamp_coord (maxArea_width cfg) (fst point),
              clamp_coord (maxArea_height cfg) (snd point)) of
          (Fin px, Fin py) \<Rightarrow>
            (let change_x = round (px - pen_x (pen m));
                 change_y = round (py - pen_y (pen m))
             in if change_x = 0 \<and> change_y = 0 then (m, Called True, 0)
                else
                  let distance = sqrt (real_of_int (change_x ^ 2 + change_y ^ 2));
                      speed = (if truthy (pen_state (pen m)) then speed_drawing cfg
                               else speed_moving cfg);
                      duration = move_duration distance speed;
                      m1 = m\<lparr>pen := (pen m)\<lparr>pen_lastDuration := duration,
                                              pen_x := px, pen_y := py\<rparr>\<rparr>;
                      cx = (if invertAxis_x cfg then change_x * (- 1) else change_x);
                      cy = (if invertAxis_y cfg then change_y * (- 1) else change_y);
                      sx = (if swapMotors cfg then cy else cx);
                      sy = (if swapMotors cfg then cx else cy);
                      sent = serialCommand (SM duration sx sy) m1
                  in (fst sent, Called (snd sent), distance))
        | _ \<Rightarrow> (m, Called False, 0))"

section \<open>Pen height\<close>

text \<open>The two clamping assignments to the range 0 to 100 (lines 507, 508 and 580, 581).\<close>

definition clamp_percent :: "real \<Rightarrow> real" where
  "clamp_percent h = (let h1 = (if h > 100 then 100 else h) in if h1 < 0 then 0 else h1)"

text \<open>The same two assignments on a value that may be NaN (the comparisons are false).\<close>

fun clamp_percent_js :: "jsnum \<Rightarrow> jsnum" where
  "clamp_percent_js (Fin h) = Fin (clamp_percent h)"
| "clamp_percent_js NaN = NaN"
| "clamp_percent_js PInf = Fin 100"
| "clamp_percent_js NInf = Fin 0"

text \<open>
  \<^verbatim>\<open>p[name]\<close> on the presets.  The presets are a plain object, so the lookup also
  finds what every object inherits from \<^verbatim>\<open>Object.prototype\<close>: functions, and the
  prototype itself under \<^verbatim>\<open>__proto__\<close>.  Those are truthy, and \<^verbatim>\<open>parseFloat\<close> of
  them is NaN.
\<close>

definition object_prototype_keys :: "string list" where
  "object_prototype_keys =
     [''constructor'', ''toString'', ''toLocaleString'', ''valueOf'', ''hasOwnProperty'',
      ''isPrototypeOf'', ''propertyIsEnumerable'', ''__defineGetter__'',
      ''__defineSetter__'', ''__lookupGetter__'', ''__lookupSetter__'', ''__proto__'']"

datatype lookup = Own real | Inherited | Undefined

definition preset :: "config \<Rightarrow> string \<Rightarrow> lookup" where
  "preset cfg name =
     (if name = ''up'' then Own (preset_up cfg)
      else if name = ''paint'' then Own (preset_paint cfg)
      else case presets_other cfg name of
             Some v \<Rightarrow> Own v
           | None \<Rightarrow> if name \<in> set object_prototype_keys then Inherited else Undefined)"

text \<open>
  Lines 544 to 584 of \<^verbatim>\<open>setHeight\<close>: the value for \<^verbatim>\<open>pen.state\<close> and the
  servo value.
\<close>

definition resolveHeight :: "config \<Rightarrow> pstate \<Rightarrow> pstate \<times> jsnum" where
  "resolveHeight cfg height =
     (let min0 = real_of_int (servo_min cfg);
          max0 = real_of_int (servo_max cfg);
          range0 = max0 - min0;
          parsed =
            (case height of
               SName s \<Rightarrow>
                 (case preset cfg s of
                    Own v \<Rightarrow> (SName s, Fin v, True)
                  | Inherited \<Rightarrow> (SName s, NaN, True)
                  | Undefined \<Rightarrow> (SName ''up'', Fin (preset_up cfg), True))
             | SNum r \<Rightarrow>
                 (let a = \<bar>r\<bar>;
                      a1 = (if a > 1 then 1 else a)
                  in (SNum a1, Fin (real_of_int (parseInt_num ((1 - a1) * 1000)) / 10), False)));
          stateValue = fst parsed;
          h = fst (snd parsed);
          fullRange = snd (snd parsed);
          min1 = (if \<not> fullRange then (preset_paint cfg / 100) * range0 + min0 else min0);
          max1 = (if \<not> fullRange
                  then (preset_up cfg / 100) * range0 + real_of_int (servo_min cfg)
                  else max0);
          range1 = max1 - min1;
          h1 = clamp_percent_js h
      in (stateValue, js_round (js_plus (js_times (js_divide h1 100) range1) min1)))"

text \<open>The pro-rated duration of lines 589 and 590.\<close>

definition proRate :: "config \<Rightarrow> jsnum \<Rightarrow> jsnum \<Rightarrow> jsnum" where
  "proRate cfg height old =
     (let range = servo_max cfg - servo_min cfg
      in js_plus (js_round (js_times (js_divide (js_abs (js_minus height old))
                                               (real_of_int range))
                                     (servo_duration cfg))) 1)"

text \<open>
  \<^verbatim>\<open>setHeight(height, callback)\<close>; \<open>hasCallback\<close> says whether a callback was
  passed.
\<close>

definition setHeight :: "config \<Rightarrow> pstate \<Rightarrow> bool \<Rightarrow> machine \<Rightarrow> machine \<times> outcome" where
  "setHeight cfg height hasCallback m =
     (let resolved = resolveHeight cfg height;
          stateValue = fst resolved;
          h = snd resolved;
          servoDuration =
            (if js_truthy (pen_height (pen m)) then proRate cfg h (pen_height (pen m))
             else Fin (servo_duration cfg));
          m1 = m\<lparr>pen := (pen m)\<lparr>pen_height := h\<rparr>\<rparr>;
          m2 = sendSetup 5 h m1;
          sent = serialCommand (SP 0) m2;
          data = snd sent;
          m3 = (if data then (fst sent)\<lparr>pen := (pen (fst sent))\<lparr>pen_state := stateValue\<rparr>\<rparr>
                else fst sent)
      in if hasCallback
         then (fst (serialCommand (SM servoDuration 0 0) m3), Called data)
         else (m3, NotCalled))"

section \<open>Connection\<close>

definition simulationModeInit :: "machine \<Rightarrow> machine" where
  "simulationModeInit m = m\<lparr>pen := (pen m)\<lparr>pen_simulation := True\<rparr>\<rparr>"

text \<open>
  \<^verbatim>\<open>connectSerial({complete: callback})\<close>: when a port is found and opens, the
  serial port exists and simulation is switched off; \<^verbatim>\<open>complete\<close> receives
  \<^verbatim>\<open>stat\<close>, which is \<^verbatim>\<open>false\<close> throughout.
\<close>

definition connectSerial :: "machine \<Rightarrow> machine \<times> outcome" where
  "connectSerial m =
     (let stat = False;
          m1 = (if portAvailable m
                then m\<lparr>serialReady := True, pen := (pen m)\<lparr>pen_simulation := False\<rparr>\<rparr>
                else m)
      in (m1, Called stat))"

section \<open>The pen request\<close>

text \<open>
  The fields of \<^verbatim>\<open>inPen\<close>; \<open>None\<close> is \<^verbatim>\<open>undefined\<close>.  The flags are given by
  their truthiness.
\<close>

record request =
  req_x :: "jsnum option"
  req_y :: "jsnum option"
  req_state :: "pstate option"
  req_simulation :: "bool option"
  req_resetCounter :: bool
  req_park :: bool
  req_ignoreTimeout :: bool

text \<open>\<^verbatim>\<open>Number(v)\<close> of a field: NaN when the field is undefined.\<close>

definition num_of :: "jsnum option \<Rightarrow> jsnum" where
  "num_of v = (case v of None \<Rightarrow> NaN | Some n \<Rightarrow> n)"

text \<open>Lines 507 to 517: percentages of the work area to absolute positions.\<close>

definition absInput :: "config \<Rightarrow> real \<Rightarrow> real \<Rightarrow> real \<times> real" where
  "absInput cfg x y =
     (let x1 = clamp_percent x;
          y1 = clamp_percent y
      in (workArea_left cfg + ((x1 / 100) * (maxArea_width cfg - workArea_left cfg)),
          workArea_top cfg + ((y1 / 100) * (maxArea_height cfg - workArea_top cfg))))"

text \<open>Lines 497 to 536: the position part of \<^verbatim>\<open>setPen\<close>.\<close>

definition setPen_position :: "config \<Rightarrow> request \<Rightarrow> machine \<Rightarrow> machine \<times> outcome" where
  "setPen_position cfg inPen m =
     (let x = num_of (req_x inPen);
          y = num_of (req_y inPen)
      in if isNaN x \<or> isNaN y \<or> \<not> isFinite x \<or> \<not> isFinite y then (m, Called False)
         else
           case (x, y) of
             (Fin xr, Fin yr) \<Rightarrow>
               (let a = absInput cfg xr yr;
                    ax = (if req_park inPen then fst a - workArea_left cfg else fst a);
                    ay = (if req_park inPen then snd a - workArea_top cfg else snd a)
                in if req_park inPen \<and> pen_x (pen m) = 0 \<and> pen_y (pen m) = 0
                   then (m, Called False)
                   else
                     let moved = movePenAbs cfg (Fin ax, Fin ay) (req_ignoreTimeout inPen) m;
                         m1 = fst moved;
                         distance = snd (snd moved)
                     in ((if truthy (pen_state (pen m1))
                          then m1\<lparr>pen := (pen m1)\<lparr>pen_distanceCounter :=
                                                 distance + pen_distanceCounter (pen m1)\<rparr>\<rparr>
                          else m1),
                         fst (snd moved)))
           | _ \<Rightarrow> (m, Called False))"

text \<open>\<^verbatim>\<open>setPen(inPen, callback)\<close>, called with a callback.\<close>

definition setPen :: "config \<Rightarrow> request \<Rightarrow> machine \<Rightarrow> machine \<times> outcome" where
  "setPen cfg inPen m =
     (if req_resetCounter inPen
      then (m\<lparr>pen := (pen m)\<lparr>pen_distanceCounter := 0\<rparr>\<rparr>, Called True)
      else
        case req_simulation inPen of
          Some s \<Rightarrow>
            (if s = pen_simulation (pen m) then (m, Called True)
             else if \<not> s then connectSerial m
             else (simulationModeInit m, NotCalled))
        | None \<Rightarrow>
            (case req_state inPen of
               Some st \<Rightarrow>
                 (if \<not> loose_eq st (pen_state (pen m)) then setHeight cfg st True m
                  else if req_x inPen \<noteq> None then setPen_position cfg inPen m
                  else (m, Called True))
             | None \<Rightarrow>
                 (if req_x inPen \<noteq> None then setPen_position cfg inPen m
                  else (m, Called True))))"

section \<open>Wiggling and tool change\<close>

text \<open>Lines 725 to 746: the point of one wiggle step.\<close>

definition wigglePoint :: "string \<Rightarrow> real \<Rightarrow> real \<times> real \<Rightarrow> nat \<Rightarrow> bool \<Rightarrow> real \<times> real" where
  "wigglePoint axis travel start i toggle =
     (if axis = ''xy'' then
        (let rot = i mod 4 in
         if rot mod 3 \<noteq> 0 then
           (if toggle then (fst start, snd start + travel / 2)
            else (fst start - travel, snd start))
         else
           (if toggle then (fst start, snd start - travel / 2)
            else (fst start + travel, snd start)))
      else if axis = ''x'' then
        (fst start + (if toggle then travel else travel * (- 1)), snd start)
      else if axis = ''y'' then
        (fst start, snd start + (if toggle then travel else travel * (- 1)))
      else start)"

text \<open>
  \<^verbatim>\<open>_wiggleSlave(toggle)\<close> with the variables of the enclosing \<^verbatim>\<open>wigglePen\<close>
  as arguments.  Each callback of \<^verbatim>\<open>movePenAbs\<close> continues the chain, whatever
  value it receives.
\<close>

function wiggleSlave ::
  "config \<Rightarrow> string \<Rightarrow> real \<Rightarrow> int \<Rightarrow> real \<times> real \<Rightarrow> nat \<Rightarrow> bool \<Rightarrow> machine
     \<Rightarrow> machine \<times> outcome" where
  "wiggleSlave cfg axis travel iterations start i toggle m =
     (let point = wigglePoint axis travel start i toggle;
          m1 = fst (movePenAbs cfg (Fin (fst point), Fin (snd point)) False m)
      in if int (i + 1) \<le> iterations
         then wiggleSlave cfg axis travel iterations start (i + 1) (\<not> toggle) m1
         else
           (let back = movePenAbs cfg (Fin (fst start), Fin (snd start)) False m1
            in (fst back, fst (snd back))))"
  by pat_completeness auto
termination
  by (relation "measure (\<lambda>(cfg, axis, travel, iterations, start, i, toggle, m).
                  nat (iterations + 1 - int i))") auto

definition wigglePen :: "config \<Rightarrow> string \<Rightarrow> real \<Rightarrow> int \<Rightarrow> machine \<Rightarrow> machine \<times> outcome" where
  "wigglePen cfg axis travel iterations m =
     wiggleSlave cfg axis travel iterations (pen_x (pen m), pen_y (pen m)) 0 True m"

text \<open>
  \<^verbatim>\<open>setTool(toolName, callback)\<close>.  For a name without a tool entry,
  \<^verbatim>\<open>movePenAbs\<close> reads a property of \<^verbatim>\<open>undefined\<close> and throws.
\<close>

definition setTool :: "config \<Rightarrow> string \<Rightarrow> machine \<Rightarrow> machine \<times> outcome" where
  "setTool cfg toolName m =
     (let downHeight = (if sublist ''water'' toolName then ''wash'' else ''paint'');
          m1 = fst (setHeight cfg (SName ''up'') True m)
      in case tools cfg toolName of
           None \<Rightarrow> (m1, TypeError)
         | Some t \<Rightarrow>
             (let moved = movePenAbs cfg (tool_x t, tool_y t) False m1;
                  data = fst (snd moved);
                  m3 = fst (setHeight cfg (SName downHeight) True (fst moved));
                  m4 = fst (wigglePen cfg (wiggleAxis t) (wiggleTravel t)
                              (wiggleIterations t) m3);
                  m5 = fst (setHeight cfg (SName ''up'') True m4)
              in (m5, data)))"

text \<open>The handler of \<^verbatim>\<open>DELETE /v1/motors\<close>: \<^verbatim>\<open>serialCommand('EM,0,0', ...)\<close>.\<close>

definition disableMotors :: "machine \<Rightarrow> machine \<times> outcome" where
  "disableMotors m = (let sent = serialCommand EM_off m in (fst sent, Called (snd sent)))"

section \<open>Requests, and a concrete machine\<close>

text \<open>
  The requests that \<^verbatim>\<open>setPen\<close> handles as a move: none of the returns of lines
  462 to 494 is taken, and \<^verbatim>\<open>inPen.x\<close> is defined (line 497).
\<close>

definition position_request :: "request \<Rightarrow> machine \<Rightarrow> bool" where
  "position_request inPen m =
     (\<not> req_resetCounter inPen \<and> req_simulation inPen = None \<and>
      (case req_state inPen of None \<Rightarrow> True | Some st \<Rightarrow> loose_eq st (pen_state (pen m))) \<and>
      req_x inPen \<noteq> None)"

text \<open>The initial \<^verbatim>\<open>pen\<close> of lines 38 to 48, with a port open.\<close>

definition initial_pen :: pen where
  "initial_pen =
     \<lparr>pen_x = 0, pen_y = 0, pen_state = SNum 0, pen_height = Fin 0, pen_busy = False,
      pen_tool = ''color0'', pen_lastDuration = Fin 0, pen_distanceCounter = 0,
      pen_simulation = False\<rparr>"

definition initial_machine :: machine where
  "initial_machine =
     \<lparr>pen = initial_pen, serialReady = True, portAvailable = True,
      moves = [], issued = [], written = []\<rparr>"

text \<open>
  A bot: the work area of 1000 by 800 at the origin and the drawing speed of 200
  are those of the scenario in the specification; the other values are chosen.
\<close>

definition example_tool :: tool where
  "example_tool =
     \<lparr>tool_x = Fin 100, tool_y = Fin 200, wiggleAxis = ''xy'', wiggleTravel = 10,
      wiggleIterations = 4\<rparr>"

definition example_config :: config where
  "example_config =
     \<lparr>workArea_left = 0, workArea_top = 0, maxArea_width = 1000, maxArea_height = 800,
      servo_min = 10000, servo_max = 20000, preset_up = 70, preset_paint = 30,
      presets_other = [''wash'' \<mapsto> 20], servo_duration = 340,
      speed_drawing = 200, speed_moving = 400,
      invertAxis_x = False, invertAxis_y = False, swapMotors = False,
      tools = [''color0'' \<mapsto> example_tool]\<rparr>"

text \<open>A request with the given percentages and no other field.\<close>

definition move_request :: "real \<Rightarrow> real \<Rightarrow> request" where
  "move_request x y =
     \<lparr>req_x = Some (Fin x), req_y = Some (Fin y), req_state = None, req_simulation = None,
      req_resetCounter = False, req_park = False, req_ignoreTimeout = False\<rparr>"

text \<open>A request with every field set.\<close>

definition full_request :: request where
  "full_request =
     \<lparr>req_x = Some (Fin 50), req_y = Some (Fin 50), req_state = Some (SNum 1),
      req_simulation = Some True, req_resetCounter = True, req_park = True,
      req_ignoreTimeout = False\<rparr>"

text \<open>A sequence of requests, each handled after the one before has completed.\<close>

fun setPen_seq :: "config \<Rightarrow> request list \<Rightarrow> machine \<Rightarrow> machine" where
  "setPen_seq cfg [] m = m"
| "setPen_seq cfg (r # rs) m = setPen_seq cfg rs (fst (setPen cfg r m))"

section \<open>The rules as the specification words them\<close>

text \<open>
  The two-axis rule in the words of the specification: at step \<open>i\<close> with
  \<open>rot = i mod 4\<close>, an odd \<open>rot\<close> offsets the start by half the travel on the
  vertical axis, an even one by the full travel on the horizontal axis, in either
  direction.
\<close>

definition spec_xy_step :: "real \<Rightarrow> real \<times> real \<Rightarrow> nat \<Rightarrow> real \<times> real \<Rightarrow> bool" where
  "spec_xy_step travel start i point =
     (let rot = i mod 4 in
      if odd rot
      then point = (fst start, snd start + travel / 2) \<or>
           point = (fst start, snd start - travel / 2)
      else point = (fst start + travel, snd start) \<or>
           point = (fst start - travel, snd start))"


section \<open>Serial commands and moves: basic facts\<close>

lemma serialCommand_pen [simp]: "pen (fst (serialCommand c m)) = pen m"
  by (simp add: serialCommand_def Let_def)

lemma serialCommand_data [simp]: "snd (serialCommand c m) = True"
  by (simp add: serialCommand_def Let_def)

lemma serialCommand_issued [simp]: "issued (fst (serialCommand c m)) = issued m @ [c]"
  by (simp add: serialCommand_def Let_def)

lemma serialCommand_moves [simp]: "moves (fst (serialCommand c m)) = moves m"
  by (simp add: serialCommand_def Let_def)

lemma serialCommand_ready [simp]: "serialReady (fst (serialCommand c m)) = serialReady m"
  by (simp add: serialCommand_def Let_def)

lemma serialCommand_port [simp]: "portAvailable (fst (serialCommand c m)) = portAvailable m"
  by (simp add: serialCommand_def Let_def)

lemma serialCommand_written:
  "written (fst (serialCommand c m)) =
     (if \<not> pen_simulation (pen m) \<and> serialReady m then written m @ [c] else written m)"
  by (simp add: serialCommand_def Let_def)

lemma serialCommand_written_sim [simp]:
  "pen_simulation (pen m) \<Longrightarrow> written (fst (serialCommand c m)) = written m"
  by (simp add: serialCommand_written)

lemma move_duration_ge_1:
  assumes "0 < distance"
  shows "js_ge (move_duration distance speed) 1 \<and> move_duration distance speed \<noteq> Fin 0"
proof (cases "speed = 0")
  case True
  with assms show ?thesis by (simp add: move_duration_def js_div_def)
next
  case False
  define k where "k = round (distance / speed * 1000)"
  have "k = 0 \<or> 1 \<le> \<bar>k\<bar>" by linarith
  then have "k = 0 \<or> (1::real) \<le> \<bar>real_of_int k\<bar>"
    by (metis of_int_1_le_iff of_int_abs)
  with False show ?thesis
    by (auto simp: move_duration_def js_div_def Let_def k_def)
qed

lemma clamp_coord_Fin: "\<exists>r. clamp_coord w (Fin a) = Fin r"
  by (simp add: Let_def)

lemma clamp_coord_notNaN: "\<not> isNaN v \<Longrightarrow> \<exists>r. clamp_coord w v = Fin r"
  by (cases v) (simp_all add: Let_def)

text \<open>The three ways through \<^verbatim>\<open>movePenAbs\<close>: invalid input, no change, a move.\<close>

lemma movePenAbs_cases:
  obtains (invalid) "isNaN (fst point) \<or> isNaN (snd point)"
      "movePenAbs cfg point imm m = (m\<lparr>moves := moves m @ [point]\<rparr>, Called False, 0)"
  | (still) px py where "\<not> isNaN (fst point) \<and> \<not> isNaN (snd point)"
      "clamp_coord (maxArea_width cfg) (fst point) = Fin px"
      "clamp_coord (maxArea_height cfg) (snd point) = Fin py"
      "round (px - pen_x (pen m)) = 0" "round (py - pen_y (pen m)) = 0"
      "movePenAbs cfg point imm m = (m\<lparr>moves := moves m @ [point]\<rparr>, Called True, 0)"
  | (move) px py d sx sy where "\<not> isNaN (fst point) \<and> \<not> isNaN (snd point)"
      "clamp_coord (maxArea_width cfg) (fst point) = Fin px"
      "clamp_coord (maxArea_height cfg) (snd point) = Fin py"
      "round (px - pen_x (pen m)) \<noteq> 0 \<or> round (py - pen_y (pen m)) \<noteq> 0"
      "d = move_duration (sqrt (real_of_int ((round (px - pen_x (pen m)))\<^sup>2 + (round (py - pen_y (pen m)))\<^sup>2)))
             (if truthy (pen_state (pen m)) then speed_drawing cfg else speed_moving cfg)"
      "sx \<noteq> 0 \<or> sy \<noteq> 0"
      "movePenAbs cfg point imm m =
         (fst (serialCommand (SM d sx sy)
            (m\<lparr>moves := moves m @ [point],
               pen := (pen m)\<lparr>pen_lastDuration := d, pen_x := px, pen_y := py\<rparr>\<rparr>)),
          Called True,
          sqrt (real_of_int ((round (px - pen_x (pen m)))\<^sup>2 + (round (py - pen_y (pen m)))\<^sup>2)))"
proof (cases "isNaN (fst point) \<or> isNaN (snd point)")
  case True
  then show ?thesis using invalid by (simp add: movePenAbs_def Let_def)
next
  case False
  then obtain px py where c: "clamp_coord (maxArea_width cfg) (fst point) = Fin px"
      "clamp_coord (maxArea_height cfg) (snd point) = Fin py"
    using clamp_coord_notNaN by blast
  show ?thesis
  proof (cases "round (px - pen_x (pen m)) = 0 \<and> round (py - pen_y (pen m)) = 0")
    case True
    with False c show ?thesis using still [of px py] by (simp add: movePenAbs_def Let_def)
  next
    case nz: False
    let ?cx = "round (px - pen_x (pen m))" and ?cy = "round (py - pen_y (pen m))"
    let ?dist = "sqrt (real_of_int (?cx\<^sup>2 + ?cy\<^sup>2))"
    let ?d = "move_duration ?dist
               (if truthy (pen_state (pen m)) then speed_drawing cfg else speed_moving cfg)"
    let ?ix = "if invertAxis_x cfg then ?cx * (- 1) else ?cx"
    let ?iy = "if invertAxis_y cfg then ?cy * (- 1) else ?cy"
    let ?sx = "if swapMotors cfg then ?iy else ?ix"
    let ?sy = "if swapMotors cfg then ?ix else ?iy"
    have eq: "movePenAbs cfg point imm m =
         (fst (serialCommand (SM ?d ?sx ?sy)
            (m\<lparr>moves := moves m @ [point],
               pen := (pen m)\<lparr>pen_lastDuration := ?d, pen_x := px, pen_y := py\<rparr>\<rparr>)),
          Called True, ?dist)"
      using False c nz by (auto simp: movePenAbs_def Let_def)
    have nz': "?cx \<noteq> 0 \<or> ?cy \<noteq> 0" using nz by blast
    then have s: "?sx \<noteq> 0 \<or> ?sy \<noteq> 0" by auto
    show ?thesis
      by (rule move [of px py ?d ?sx ?sy]) (use False c nz' s eq in \<open>blast+\<close>)
  qed
qed

lemma movePenAbs_frame:
  "serialReady (fst (movePenAbs cfg point imm m)) = serialReady m \<and>
   portAvailable (fst (movePenAbs cfg point imm m)) = portAvailable m \<and>
   moves (fst (movePenAbs cfg point imm m)) = moves m @ [point] \<and>
   pen_simulation (pen (fst (movePenAbs cfg point imm m))) = pen_simulation (pen m) \<and>
   pen_state (pen (fst (movePenAbs cfg point imm m))) = pen_state (pen m) \<and>
   pen_height (pen (fst (movePenAbs cfg point imm m))) = pen_height (pen m) \<and>
   pen_tool (pen (fst (movePenAbs cfg point imm m))) = pen_tool (pen m) \<and>
   pen_distanceCounter (pen (fst (movePenAbs cfg point imm m))) = pen_distanceCounter (pen m)"
  by (rule movePenAbs_cases [where cfg = cfg and point = point and imm = imm and m = m]) simp_all

lemma movePenAbs_written_sim:
  "pen_simulation (pen m) \<Longrightarrow> written (fst (movePenAbs cfg point imm m)) = written m"
  by (rule movePenAbs_cases [where cfg = cfg and point = point and imm = imm and m = m]) simp_all

lemma movePenAbs_outcome:
  "fst (snd (movePenAbs cfg point imm m)) = Called (\<not> (isNaN (fst point) \<or> isNaN (snd point)))"
  by (rule movePenAbs_cases [where cfg = cfg and point = point and imm = imm and m = m]) auto

lemma movePenAbs_distance_nonneg: "0 \<le> snd (snd (movePenAbs cfg point imm m))"
  by (rule movePenAbs_cases [where cfg = cfg and point = point and imm = imm and m = m]) simp_all

lemma sqrt_int_pos:
  fixes a b :: int
  assumes "a \<noteq> 0 \<or> b \<noteq> 0"
  shows "0 < sqrt (real_of_int (a\<^sup>2 + b\<^sup>2))"
proof -
  have "0 < a\<^sup>2 + b\<^sup>2" using assms
    by (metis add_pos_nonneg add_nonneg_pos zero_le_power2 zero_less_power2)
  then show ?thesis by (simp only: real_sqrt_gt_0_iff of_int_0_less_iff)
qed

text \<open>
  Claim C5.  A distance above zero, however small, gives a duration of at least 1 and
  never 0, at any speed.  A call of \<^verbatim>\<open>movePenAbs\<close> whose rounded change is not
  zero issues exactly one command, an \<^verbatim>\<open>SM\<close> with such a duration, which is also
  stored in \<^verbatim>\<open>pen.lastDuration\<close>; any other call issues no command and returns
  the distance 0.  So no \<^verbatim>\<open>SM\<close> command of a move has the duration 0.
\<close>

theorem movePenAbs_duration_at_least_1:
  "(\<forall>distance speed. 0 < distance \<longrightarrow>
       js_ge (move_duration distance speed) 1 \<and> move_duration distance speed \<noteq> Fin 0) \<and>
   (\<forall>px py. clamp_coord (maxArea_width cfg) (fst point) = Fin px \<and>
       clamp_coord (maxArea_height cfg) (snd point) = Fin py \<and>
       (round (px - pen_x (pen m)) \<noteq> 0 \<or> round (py - pen_y (pen m)) \<noteq> 0) \<longrightarrow>
       (\<exists>d sx sy. issued (fst (movePenAbs cfg point imm m)) = issued m @ [SM d sx sy] \<and>
          js_ge d 1 \<and> d \<noteq> Fin 0 \<and>
          pen_lastDuration (pen (fst (movePenAbs cfg point imm m))) = d)) \<and>
   (issued (fst (movePenAbs cfg point imm m)) = issued m \<and>
      snd (snd (movePenAbs cfg point imm m)) = 0
    \<or> (\<exists>d sx sy. issued (fst (movePenAbs cfg point imm m)) = issued m @ [SM d sx sy] \<and>
          js_ge d 1 \<and> d \<noteq> Fin 0 \<and> (sx \<noteq> 0 \<or> sy \<noteq> 0) \<and>
          pen_lastDuration (pen (fst (movePenAbs cfg point imm m))) = d \<and>
          0 < snd (snd (movePenAbs cfg point imm m))))"
proof -
  have small: "\<forall>distance speed. 0 < distance \<longrightarrow>
       js_ge (move_duration distance speed) 1 \<and> move_duration distance speed \<noteq> Fin 0"
    using move_duration_ge_1 by blast
  show ?thesis
  proof (cases rule: movePenAbs_cases [where cfg = cfg and point = point and imm = imm and m = m])
    case invalid
    have "\<And>w v r. isNaN v \<Longrightarrow> clamp_coord w v \<noteq> Fin r"
      by (case_tac v) simp_all
    with invalid small show ?thesis by auto
  next
    case (still px py)
    with small show ?thesis by auto
  next
    case (move px py d sx sy)
    have pos: "0 < sqrt (real_of_int ((round (px - pen_x (pen m)))\<^sup>2 + (round (py - pen_y (pen m)))\<^sup>2))"
      using move(4) by (rule sqrt_int_pos)
    then have "js_ge d 1 \<and> d \<noteq> Fin 0"
      unfolding move(5) by (rule move_duration_ge_1)
    with pos move(6,7) small show ?thesis by simp
  qed
qed

lemma example_values:
  "maxArea_width example_config = 1000" "maxArea_height example_config = 800"
  "workArea_left example_config = 0" "workArea_top example_config = 0"
  "servo_min example_config = 10000" "servo_max example_config = 20000"
  "preset_up example_config = 70" "preset_paint example_config = 30"
  "speed_drawing example_config = 200" "speed_moving example_config = 400"
  "pen_x (pen initial_machine) = 0" "pen_y (pen initial_machine) = 0"
  "pen_state (pen initial_machine) = SNum 0" "pen_height (pen initial_machine) = Fin 0"
  "pen_distanceCounter (pen initial_machine) = 0"
  "pen_simulation (pen initial_machine) = False"
  "moves initial_machine = []" "issued initial_machine = []" "written initial_machine = []"
  by (simp_all add: example_config_def initial_machine_def initial_pen_def)

theorem movePenAbs_duration_witness:
  "js_ge (move_duration (1 / 1000000) 200) 1 \<and>
   (\<exists>d sx sy. issued (fst (movePenAbs example_config (Fin 300, Fin 400) False initial_machine))
       = [SM d sx sy] \<and> js_ge d 1 \<and> d \<noteq> Fin 0)"
proof -
  note t = movePenAbs_duration_at_least_1
    [where cfg = example_config and point = "(Fin 300, Fin 400)" and m = initial_machine
       and imm = False]
  from t have "0 < (1 / 1000000 :: real) \<longrightarrow> js_ge (move_duration (1 / 1000000) 200) 1"
    by blast
  then have a: "js_ge (move_duration (1 / 1000000) 200) 1" by simp
  from t have "clamp_coord (maxArea_width example_config) (Fin 300) = Fin 300 \<and>
       clamp_coord (maxArea_height example_config) (Fin 400) = Fin 400 \<and>
       (round (300 - pen_x (pen initial_machine)) \<noteq> 0 \<or>
        round (400 - pen_y (pen initial_machine)) \<noteq> 0) \<longrightarrow>
       (\<exists>d sx sy. issued (fst (movePenAbs example_config (Fin 300, Fin 400) False initial_machine))
          = issued initial_machine @ [SM d sx sy] \<and> js_ge d 1 \<and> d \<noteq> Fin 0 \<and>
          pen_lastDuration (pen (fst (movePenAbs example_config (Fin 300, Fin 400) False
             initial_machine))) = d)"
    by simp
  then have "\<exists>d sx sy. issued (fst (movePenAbs example_config (Fin 300, Fin 400) False initial_machine))
          = [SM d sx sy] \<and> js_ge d 1 \<and> d \<noteq> Fin 0"
    by (simp add: example_values) blast
  with a show ?thesis by blast
qed

section \<open>Invalid coordinates and parking\<close>

lemma setPen_position_stage:
  "position_request r m \<Longrightarrow> setPen cfg r m = setPen_position cfg r m"
  by (auto simp: position_request_def setPen_def split: option.splits)

text \<open>
  Claim C6.  A request that \<^verbatim>\<open>setPen\<close> handles as a move and whose x or y is
  NaN, infinite or undefined calls back with \<^verbatim>\<open>false\<close> and leaves the whole
  state as it was: the pen is unchanged, \<^verbatim>\<open>movePenAbs\<close> is not called and no command
  is issued or written.  \<^verbatim>\<open>movePenAbs\<close> itself, given a NaN coordinate, calls back
  with \<^verbatim>\<open>false\<close>, returns 0, leaves the pen unchanged and issues no command.
\<close>

theorem setPen_bad_coordinates_fail:
  "(position_request r m \<and>
      (\<not> isFinite (num_of (req_x r)) \<or> \<not> isFinite (num_of (req_y r)))
      \<longrightarrow> setPen cfg r m = (m, Called False)) \<and>
   (isNaN (fst point) \<or> isNaN (snd point) \<longrightarrow>
      pen (fst (movePenAbs cfg point imm m)) = pen m \<and>
      issued (fst (movePenAbs cfg point imm m)) = issued m \<and>
      written (fst (movePenAbs cfg point imm m)) = written m \<and>
      snd (movePenAbs cfg point imm m) = (Called False, 0))"
proof -
  have A: "setPen cfg r m = (m, Called False)"
    if a: "position_request r m \<and>
      (\<not> isFinite (num_of (req_x r)) \<or> \<not> isFinite (num_of (req_y r)))"
  proof -
    from a have "setPen_position cfg r m = (m, Called False)"
      by (auto simp: setPen_position_def Let_def)
    with a show ?thesis by (simp add: setPen_position_stage)
  qed
  have B: "pen (fst (movePenAbs cfg point imm m)) = pen m \<and>
      issued (fst (movePenAbs cfg point imm m)) = issued m \<and>
      written (fst (movePenAbs cfg point imm m)) = written m \<and>
      snd (movePenAbs cfg point imm m) = (Called False, 0)"
    if "isNaN (fst point) \<or> isNaN (snd point)"
  proof -
    from that
    have "movePenAbs cfg point imm m = (m\<lparr>moves := moves m @ [point]\<rparr>, Called False, 0)"
      by (simp add: movePenAbs_def Let_def)
    then show ?thesis by simp
  qed
  from A B show ?thesis by blast
qed

theorem setPen_bad_coordinates_witness:
  "setPen example_config ((move_request 50 50)\<lparr>req_x := Some NaN\<rparr>) initial_machine
     = (initial_machine, Called False) \<and>
   setPen example_config ((move_request 50 50)\<lparr>req_y := Some PInf\<rparr>) initial_machine
     = (initial_machine, Called False) \<and>
   setPen example_config ((move_request 50 50)\<lparr>req_y := None\<rparr>) initial_machine
     = (initial_machine, Called False) \<and>
   snd (movePenAbs example_config (NaN, Fin 5) False initial_machine) = (Called False, 0)"
  using setPen_bad_coordinates_fail
    [where cfg = example_config and r = "(move_request 50 50)\<lparr>req_x := Some NaN\<rparr>"
       and m = initial_machine and point = "(NaN, Fin 5)" and imm = False]
    setPen_bad_coordinates_fail
    [where cfg = example_config and r = "(move_request 50 50)\<lparr>req_y := Some PInf\<rparr>"
       and m = initial_machine and point = "(NaN, Fin 5)" and imm = False]
    setPen_bad_coordinates_fail
    [where cfg = example_config and r = "(move_request 50 50)\<lparr>req_y := None\<rparr>"
       and m = initial_machine and point = "(NaN, Fin 5)" and imm = False]
  by (simp add: position_request_def move_request_def num_of_def)

text \<open>
  Claim C10.  A park request (a move request with \<^verbatim>\<open>park\<close> set and valid
  coordinates) that arrives while the pen is at (0, 0) calls back with \<^verbatim>\<open>false\<close>
  and leaves the whole state as it was: no move and no command.
\<close>

theorem park_when_parked_fails:
  "position_request r m \<and> isFinite (num_of (req_x r)) \<and> isFinite (num_of (req_y r)) \<and>
   req_park r \<and> pen_x (pen m) = 0 \<and> pen_y (pen m) = 0
   \<longrightarrow> setPen cfg r m = (m, Called False)"
proof
  assume a: "position_request r m \<and> isFinite (num_of (req_x r)) \<and> isFinite (num_of (req_y r)) \<and>
   req_park r \<and> pen_x (pen m) = 0 \<and> pen_y (pen m) = 0"
  then obtain xr yr where "num_of (req_x r) = Fin xr" "num_of (req_y r) = Fin yr"
    by (metis isFinite.elims(2))
  with a have "setPen_position cfg r m = (m, Called False)"
    by (simp add: setPen_position_def Let_def)
  with a show "setPen cfg r m = (m, Called False)"
    by (simp add: setPen_position_stage)
qed

theorem park_when_parked_witness:
  "setPen example_config ((move_request 0 0)\<lparr>req_park := True\<rparr>) initial_machine
     = (initial_machine, Called False)"
  using park_when_parked_fails
    [where cfg = example_config and r = "(move_request 0 0)\<lparr>req_park := True\<rparr>"
       and m = initial_machine]
  by (simp add: position_request_def move_request_def num_of_def initial_machine_def
        initial_pen_def)

section \<open>Height changes, and the order of the parts of a request\<close>

lemma setHeight_frame:
  "pen_x (pen (fst (setHeight cfg h cb m))) = pen_x (pen m) \<and>
   pen_y (pen (fst (setHeight cfg h cb m))) = pen_y (pen m) \<and>
   pen_distanceCounter (pen (fst (setHeight cfg h cb m))) = pen_distanceCounter (pen m) \<and>
   pen_simulation (pen (fst (setHeight cfg h cb m))) = pen_simulation (pen m) \<and>
   pen_tool (pen (fst (setHeight cfg h cb m))) = pen_tool (pen m) \<and>
   serialReady (fst (setHeight cfg h cb m)) = serialReady m \<and>
   portAvailable (fst (setHeight cfg h cb m)) = portAvailable m \<and>
   moves (fst (setHeight cfg h cb m)) = moves m"
  by (simp add: setHeight_def Let_def sendSetup_def)

lemma setHeight_result:
  "pen_height (pen (fst (setHeight cfg h cb m))) = snd (resolveHeight cfg h) \<and>
   pen_state (pen (fst (setHeight cfg h cb m))) = fst (resolveHeight cfg h) \<and>
   snd (setHeight cfg h cb m) = (if cb then Called True else NotCalled)"
  by (simp add: setHeight_def Let_def sendSetup_def)

lemma setHeight_written_sim:
  "pen_simulation (pen m) \<Longrightarrow> written (fst (setHeight cfg h cb m)) = written m"
  by (simp add: setHeight_def Let_def sendSetup_def)

text \<open>
  Claim C9.  \<^verbatim>\<open>setPen\<close> handles one aspect of a request, in a fixed order.
  With \<^verbatim>\<open>resetCounter\<close> set, the result is the state with the distance counter at
  0 and the callback called with \<^verbatim>\<open>true\<close>, whatever the other fields hold.
  Otherwise, with \<^verbatim>\<open>simulation\<close> defined, only the simulation toggle is handled:
  position, state, height and counter stay and no command is issued.  Otherwise,
  with a \<^verbatim>\<open>state\<close> that differs from the pen's, the result is that of
  \<^verbatim>\<open>setHeight\<close> alone: position and counter stay and \<^verbatim>\<open>movePenAbs\<close> is not
  called.  Otherwise the position fields are handled.
\<close>

theorem setPen_precedence:
  "(req_resetCounter r \<longrightarrow>
      setPen cfg r m = (m\<lparr>pen := (pen m)\<lparr>pen_distanceCounter := 0\<rparr>\<rparr>, Called True)) \<and>
   (\<not> req_resetCounter r \<and> req_simulation r = Some s \<longrightarrow>
      setPen cfg r m =
        (if s = pen_simulation (pen m) then (m, Called True)
         else if \<not> s then connectSerial m
         else (simulationModeInit m, NotCalled)) \<and>
      pen_x (pen (fst (setPen cfg r m))) = pen_x (pen m) \<and>
      pen_y (pen (fst (setPen cfg r m))) = pen_y (pen m) \<and>
      pen_state (pen (fst (setPen cfg r m))) = pen_state (pen m) \<and>
      pen_height (pen (fst (setPen cfg r m))) = pen_height (pen m) \<and>
      pen_distanceCounter (pen (fst (setPen cfg r m))) = pen_distanceCounter (pen m) \<and>
      moves (fst (setPen cfg r m)) = moves m \<and>
      issued (fst (setPen cfg r m)) = issued m \<and>
      written (fst (setPen cfg r m)) = written m) \<and>
   (\<not> req_resetCounter r \<and> req_simulation r = None \<and> req_state r = Some st \<and>
    \<not> loose_eq st (pen_state (pen m)) \<longrightarrow>
      setPen cfg r m = setHeight cfg st True m \<and>
      pen_x (pen (fst (setPen cfg r m))) = pen_x (pen m) \<and>
      pen_y (pen (fst (setPen cfg r m))) = pen_y (pen m) \<and>
      pen_distanceCounter (pen (fst (setPen cfg r m))) = pen_distanceCounter (pen m) \<and>
      pen_simulation (pen (fst (setPen cfg r m))) = pen_simulation (pen m) \<and>
      moves (fst (setPen cfg r m)) = moves m) \<and>
   (\<not> req_resetCounter r \<and> req_simulation r = None \<and>
    (req_state r = None \<or> (\<exists>st'. req_state r = Some st' \<and> loose_eq st' (pen_state (pen m))))
    \<longrightarrow>
      setPen cfg r m =
        (if req_x r \<noteq> None then setPen_position cfg r m else (m, Called True)))"
proof -
  have A: "req_resetCounter r \<longrightarrow>
      setPen cfg r m = (m\<lparr>pen := (pen m)\<lparr>pen_distanceCounter := 0\<rparr>\<rparr>, Called True)"
    by (simp add: setPen_def)
  have B: "setPen cfg r m =
        (if s = pen_simulation (pen m) then (m, Called True)
         else if \<not> s then connectSerial m
         else (simulationModeInit m, NotCalled))"
    if "\<not> req_resetCounter r \<and> req_simulation r = Some s"
    using that by (simp add: setPen_def)
  have B': "pen_x (pen (fst (setPen cfg r m))) = pen_x (pen m) \<and>
      pen_y (pen (fst (setPen cfg r m))) = pen_y (pen m) \<and>
      pen_state (pen (fst (setPen cfg r m))) = pen_state (pen m) \<and>
      pen_height (pen (fst (setPen cfg r m))) = pen_height (pen m) \<and>
      pen_distanceCounter (pen (fst (setPen cfg r m))) = pen_distanceCounter (pen m) \<and>
      moves (fst (setPen cfg r m)) = moves m \<and>
      issued (fst (setPen cfg r m)) = issued m \<and>
      written (fst (setPen cfg r m)) = written m"
    if "\<not> req_resetCounter r \<and> req_simulation r = Some s"
    unfolding B [OF that] by (simp add: connectSerial_def simulationModeInit_def Let_def)
  have C: "setPen cfg r m = setHeight cfg st True m"
    if "\<not> req_resetCounter r \<and> req_simulation r = None \<and> req_state r = Some st \<and>
        \<not> loose_eq st (pen_state (pen m))"
    using that by (simp add: setPen_def)
  have C': "pen_x (pen (fst (setPen cfg r m))) = pen_x (pen m) \<and>
      pen_y (pen (fst (setPen cfg r m))) = pen_y (pen m) \<and>
      pen_distanceCounter (pen (fst (setPen cfg r m))) = pen_distanceCounter (pen m) \<and>
      pen_simulation (pen (fst (setPen cfg r m))) = pen_simulation (pen m) \<and>
      moves (fst (setPen cfg r m)) = moves m"
    if "\<not> req_resetCounter r \<and> req_simulation r = None \<and> req_state r = Some st \<and>
        \<not> loose_eq st (pen_state (pen m))"
    unfolding C [OF that] by (simp add: setHeight_frame)
  have D: "setPen cfg r m =
        (if req_x r \<noteq> None then setPen_position cfg r m else (m, Called True))"
    if "\<not> req_resetCounter r \<and> req_simulation r = None \<and>
    (req_state r = None \<or> (\<exists>st'. req_state r = Some st' \<and> loose_eq st' (pen_state (pen m))))"
    using that by (auto simp: setPen_def)
  from A B B' C C' D show ?thesis by blast
qed

theorem setPen_precedence_witness:
  "setPen example_config full_request (initial_machine\<lparr>pen := initial_pen\<lparr>pen_distanceCounter := 7\<rparr>\<rparr>)
     = (initial_machine, Called True) \<and>
   setPen example_config (full_request\<lparr>req_resetCounter := False\<rparr>) initial_machine
     = (simulationModeInit initial_machine, NotCalled) \<and>
   setPen example_config (full_request\<lparr>req_resetCounter := False, req_simulation := None\<rparr>)
      initial_machine
     = setHeight example_config (SNum 1) True initial_machine \<and>
   setPen example_config
      (full_request\<lparr>req_resetCounter := False, req_simulation := None, req_state := Some (SNum 0)\<rparr>)
      initial_machine
     = setPen_position example_config
      (full_request\<lparr>req_resetCounter := False, req_simulation := None, req_state := Some (SNum 0)\<rparr>)
      initial_machine"
  using setPen_precedence [where cfg = example_config and r = full_request
      and m = "initial_machine\<lparr>pen := initial_pen\<lparr>pen_distanceCounter := 7\<rparr>\<rparr>"]
    setPen_precedence [where cfg = example_config
      and r = "full_request\<lparr>req_resetCounter := False\<rparr>" and m = initial_machine and s = True]
    setPen_precedence [where cfg = example_config
      and r = "full_request\<lparr>req_resetCounter := False, req_simulation := None\<rparr>"
      and m = initial_machine and st = "SNum 1"]
    setPen_precedence [where cfg = example_config
      and r = "full_request\<lparr>req_resetCounter := False, req_simulation := None,
                 req_state := Some (SNum 0)\<rparr>"
      and m = initial_machine]
  by (simp add: full_request_def initial_machine_def initial_pen_def)

section \<open>Percentages to absolute positions\<close>

lemma clamp_percent_eq: "clamp_percent p = max 0 (min 100 p)"
  by (simp add: clamp_percent_def Let_def max_def min_def)

lemma clamp_percent_range: "0 \<le> clamp_percent p \<and> clamp_percent p \<le> 100"
  by (simp add: clamp_percent_def Let_def)

lemma clamp_percent_mono: "p \<le> q \<Longrightarrow> clamp_percent p \<le> clamp_percent q"
  by (simp add: clamp_percent_def Let_def)

lemma clamp_percent_id: "0 \<le> p \<Longrightarrow> p \<le> 100 \<Longrightarrow> clamp_percent p = p"
  by (simp add: clamp_percent_def Let_def)

text \<open>A point between two bounds, \<open>t\<close> of the way from \<open>a\<close> to \<open>b\<close>.\<close>
lemma between_bounds:
  fixes t a b lo hi :: real
  assumes t: "0 \<le> t" "t \<le> 1" and a: "lo \<le> a" "a \<le> hi" and b: "lo \<le> b" "b \<le> hi"
  shows "lo \<le> t * (b - a) + a \<and> t * (b - a) + a \<le> hi"
proof -
  have e: "t * (b - a) + a = t * b + (1 - t) * a" by (simp add: algebra_simps)
  have "t * lo + (1 - t) * lo \<le> t * b + (1 - t) * a"
    using t a b by (intro add_mono mult_left_mono) simp_all
  moreover have "t * b + (1 - t) * a \<le> t * hi + (1 - t) * hi"
    using t a b by (intro add_mono mult_left_mono) simp_all
  moreover have "t * lo + (1 - t) * lo = lo" "t * hi + (1 - t) * hi = hi"
    by (simp_all add: algebra_simps)
  ultimately show ?thesis using e by simp
qed

lemma linear_map_range:
  fixes lo hi p :: real
  assumes "lo \<le> hi"
  shows "lo \<le> lo + (clamp_percent p / 100) * (hi - lo) \<and>
         lo + (clamp_percent p / 100) * (hi - lo) \<le> hi"
proof -
  have "0 \<le> clamp_percent p / 100" "clamp_percent p / 100 \<le> 1"
    using clamp_percent_range [of p] by simp_all
  from between_bounds [OF this, of lo lo hi hi] assms show ?thesis
    by (simp add: add.commute)
qed

lemma linear_map_mono:
  fixes lo hi p q :: real
  assumes "lo \<le> hi" "p \<le> q"
  shows "lo + (clamp_percent p / 100) * (hi - lo) \<le> lo + (clamp_percent q / 100) * (hi - lo)"
proof -
  have "clamp_percent p / 100 \<le> clamp_percent q / 100"
    using clamp_percent_mono [OF assms(2)] by simp
  then show ?thesis using assms(1) by (simp add: mult_right_mono)
qed

lemma setPen_position_move:
  assumes "req_x r = Some (Fin x)" "req_y r = Some (Fin y)" "\<not> req_park r"
  shows "moves (fst (setPen_position cfg r m)) =
           moves m @ [(Fin (fst (absInput cfg x y)), Fin (snd (absInput cfg x y)))]"
  using assms by (simp add: setPen_position_def Let_def num_of_def movePenAbs_frame)

text \<open>
  Claim C4.  For a bot whose work area starts inside the maximum area
  (\<open>left \<le> width\<close>, \<open>top \<le> height\<close>): the conversion clamps each percentage to
  0..100 and maps it linearly, \<open>x = left + (pct / 100) * (width - left)\<close> and likewise
  for y; the result lies between \<open>left\<close> and \<open>width\<close>, and between \<open>top\<close> and
  \<open>height\<close>, bounds included; each coordinate of the result is monotone in its own
  percentage, whatever the other one is; and this point is what a move request
  passes to \<^verbatim>\<open>movePenAbs\<close>.
\<close>

theorem absInput_linear_bounded_monotone:
  "workArea_left cfg \<le> maxArea_width cfg \<and> workArea_top cfg \<le> maxArea_height cfg \<longrightarrow>
   absInput cfg x y =
     (workArea_left cfg + (max 0 (min 100 x) / 100) * (maxArea_width cfg - workArea_left cfg),
      workArea_top cfg + (max 0 (min 100 y) / 100) * (maxArea_height cfg - workArea_top cfg)) \<and>
   (0 \<le> x \<and> x \<le> 100 \<and> 0 \<le> y \<and> y \<le> 100 \<longrightarrow>
      absInput cfg x y =
        (workArea_left cfg + (x / 100) * (maxArea_width cfg - workArea_left cfg),
         workArea_top cfg + (y / 100) * (maxArea_height cfg - workArea_top cfg))) \<and>
   workArea_left cfg \<le> fst (absInput cfg x y) \<and> fst (absInput cfg x y) \<le> maxArea_width cfg \<and>
   workArea_top cfg \<le> snd (absInput cfg x y) \<and> snd (absInput cfg x y) \<le> maxArea_height cfg \<and>
   (\<forall>x' y'. x \<le> x' \<longrightarrow> fst (absInput cfg x y) \<le> fst (absInput cfg x' y')) \<and>
   (\<forall>x' y'. y \<le> y' \<longrightarrow> snd (absInput cfg x y) \<le> snd (absInput cfg x' y')) \<and>
   (\<forall>r m. req_x r = Some (Fin x) \<and> req_y r = Some (Fin y) \<and> \<not> req_park r \<longrightarrow>
      moves (fst (setPen_position cfg r m)) =
        moves m @ [(Fin (fst (absInput cfg x y)), Fin (snd (absInput cfg x y)))])"
proof
  assume wf: "workArea_left cfg \<le> maxArea_width cfg \<and> workArea_top cfg \<le> maxArea_height cfg"
  have f: "fst (absInput cfg x y) =
      workArea_left cfg + (clamp_percent x / 100) * (maxArea_width cfg - workArea_left cfg)"
    and s: "snd (absInput cfg x y) =
      workArea_top cfg + (clamp_percent y / 100) * (maxArea_height cfg - workArea_top cfg)"
    for x y by (simp_all add: absInput_def Let_def)
  have 1: "absInput cfg x y =
     (workArea_left cfg + (max 0 (min 100 x) / 100) * (maxArea_width cfg - workArea_left cfg),
      workArea_top cfg + (max 0 (min 100 y) / 100) * (maxArea_height cfg - workArea_top cfg))"
    by (simp add: absInput_def Let_def clamp_percent_eq)
  have 2: "absInput cfg x y =
        (workArea_left cfg + (x / 100) * (maxArea_width cfg - workArea_left cfg),
         workArea_top cfg + (y / 100) * (maxArea_height cfg - workArea_top cfg))"
    if "0 \<le> x \<and> x \<le> 100 \<and> 0 \<le> y \<and> y \<le> 100"
    using that by (simp add: absInput_def Let_def clamp_percent_id)
  have 3: "workArea_left cfg \<le> fst (absInput cfg x y) \<and>
           fst (absInput cfg x y) \<le> maxArea_width cfg"
    unfolding f using wf by (intro linear_map_range) simp
  have 4: "workArea_top cfg \<le> snd (absInput cfg x y) \<and>
           snd (absInput cfg x y) \<le> maxArea_height cfg"
    unfolding s using wf by (intro linear_map_range) simp
  have 5: "fst (absInput cfg x y) \<le> fst (absInput cfg x' y')" if "x \<le> x'" for x' y'
    unfolding f using wf that by (intro linear_map_mono) simp_all
  have 6: "snd (absInput cfg x y) \<le> snd (absInput cfg x' y')" if "y \<le> y'" for x' y'
    unfolding s using wf that by (intro linear_map_mono) simp_all
  have 7: "moves (fst (setPen_position cfg r m)) =
        moves m @ [(Fin (fst (absInput cfg x y)), Fin (snd (absInput cfg x y)))]"
    if "req_x r = Some (Fin x) \<and> req_y r = Some (Fin y) \<and> \<not> req_park r" for r m
    using that by (simp add: setPen_position_move)
  from 1 2 3 4 5 6 7
  show "absInput cfg x y =
     (workArea_left cfg + (max 0 (min 100 x) / 100) * (maxArea_width cfg - workArea_left cfg),
      workArea_top cfg + (max 0 (min 100 y) / 100) * (maxArea_height cfg - workArea_top cfg)) \<and>
   (0 \<le> x \<and> x \<le> 100 \<and> 0 \<le> y \<and> y \<le> 100 \<longrightarrow>
      absInput cfg x y =
        (workArea_left cfg + (x / 100) * (maxArea_width cfg - workArea_left cfg),
         workArea_top cfg + (y / 100) * (maxArea_height cfg - workArea_top cfg))) \<and>
   workArea_left cfg \<le> fst (absInput cfg x y) \<and> fst (absInput cfg x y) \<le> maxArea_width cfg \<and>
   workArea_top cfg \<le> snd (absInput cfg x y) \<and> snd (absInput cfg x y) \<le> maxArea_height cfg \<and>
   (\<forall>x' y'. x \<le> x' \<longrightarrow> fst (absInput cfg x y) \<le> fst (absInput cfg x' y')) \<and>
   (\<forall>x' y'. y \<le> y' \<longrightarrow> snd (absInput cfg x y) \<le> snd (absInput cfg x' y')) \<and>
   (\<forall>r m. req_x r = Some (Fin x) \<and> req_y r = Some (Fin y) \<and> \<not> req_park r \<longrightarrow>
      moves (fst (setPen_position cfg r m)) =
        moves m @ [(Fin (fst (absInput cfg x y)), Fin (snd (absInput cfg x y)))])"
    by blast
qed

theorem absInput_witness:
  "absInput example_config 50 50 = (500, 400) \<and>
   fst (absInput example_config 50 50) \<le> fst (absInput example_config 120 (- 3)) \<and>
   moves (fst (setPen_position example_config (move_request 50 50) initial_machine))
     = [(Fin (fst (absInput example_config 50 50)), Fin (snd (absInput example_config 50 50)))]"
proof -
  note t = absInput_linear_bounded_monotone [where cfg = example_config and x = 50 and y = 50]
  have wf: "workArea_left example_config \<le> maxArea_width example_config \<and>
            workArea_top example_config \<le> maxArea_height example_config"
    by (simp add: example_values)
  from t wf have a: "absInput example_config 50 50 = (500, 400)"
    by (simp add: example_values)
  from t wf have "(50::real) \<le> 120 \<longrightarrow>
      fst (absInput example_config 50 50) \<le> fst (absInput example_config 120 (- 3))"
    by blast
  then have b: "fst (absInput example_config 50 50) \<le> fst (absInput example_config 120 (- 3))"
    by simp
  from t wf have "req_x (move_request 50 50) = Some (Fin 50) \<and>
      req_y (move_request 50 50) = Some (Fin 50) \<and> \<not> req_park (move_request 50 50) \<longrightarrow>
      moves (fst (setPen_position example_config (move_request 50 50) initial_machine)) =
        moves initial_machine @
          [(Fin (fst (absInput example_config 50 50)), Fin (snd (absInput example_config 50 50)))]"
    by blast
  then have c: "moves (fst (setPen_position example_config (move_request 50 50) initial_machine))
     = [(Fin (fst (absInput example_config 50 50)), Fin (snd (absInput example_config 50 50)))]"
    by (simp add: move_request_def example_values)
  from a b c show ?thesis by blast
qed

section \<open>The resolved servo value\<close>


lemma resolveHeight_name:
  "resolveHeight cfg (SName s) =
     (case preset cfg s of
        Own v \<Rightarrow> (SName s,
           Fin (real_of_int (round (clamp_percent v / 100 *
                    (real_of_int (servo_max cfg) - real_of_int (servo_min cfg))
                  + real_of_int (servo_min cfg)))))
      | Inherited \<Rightarrow> (SName s, NaN)
      | Undefined \<Rightarrow> (SName ''up'',
           Fin (real_of_int (round (clamp_percent (preset_up cfg) / 100 *
                    (real_of_int (servo_max cfg) - real_of_int (servo_min cfg))
                  + real_of_int (servo_min cfg))))))"
  by (simp add: resolveHeight_def Let_def js_div_def split: lookup.splits)














text \<open>
  A name that the presets object inherits from \<^verbatim>\<open>Object.prototype\<close> is kept as the
  pen state, and its servo value is NaN: \<^verbatim>\<open>setHeight('constructor')\<close> on the initial
  state issues \<^verbatim>\<open>SC,5,NaN\<close>.
\<close>

lemma resolveHeight_inherited:
  "resolveHeight example_config (SName ''constructor'') = (SName ''constructor'', NaN) \<and>
   issued (fst (setHeight example_config (SName ''constructor'') True initial_machine)) =
     [SC 5 NaN, SP 0, SM (Fin 340) 0 0] \<and>
   pen_state (pen (fst (setHeight example_config (SName ''constructor'') True initial_machine)))
     = SName ''constructor'' \<and>
   pen_height (pen (fst (setHeight example_config (SName ''constructor'') True initial_machine)))
     = NaN"
proof -
  have p: "preset example_config ''constructor'' = Inherited"
    by (simp add: preset_def example_config_def object_prototype_keys_def)
  then have r: "resolveHeight example_config (SName ''constructor'') = (SName ''constructor'', NaN)"
    by (simp add: resolveHeight_name)
  then show ?thesis
    by (simp add: setHeight_def Let_def sendSetup_def example_values example_config_def)
qed

section \<open>The wiggle\<close>

declare wiggleSlave.simps [simp del]

lemma wiggleSlave_moves:
  "moves (fst (wiggleSlave cfg axis travel its start i toggle m)) =
     moves m @
     map (\<lambda>k. (Fin (fst (wigglePoint axis travel start k (toggle = even (k - i)))),
               Fin (snd (wigglePoint axis travel start k (toggle = even (k - i))))))
       [i ..< max i (nat its) + 1] @
     [(Fin (fst start), Fin (snd start))]"
proof (induction cfg axis travel its start i toggle m rule: wiggleSlave.induct)
  case (1 cfg axis travel its start i toggle m)
  let ?f = "\<lambda>t j k. (Fin (fst (wigglePoint axis travel start k (t = even (k - j)))),
               Fin (snd (wigglePoint axis travel start k (t = even (k - j)))))"
  let ?m1 = "fst (movePenAbs cfg (Fin (fst (wigglePoint axis travel start i toggle)),
                 Fin (snd (wigglePoint axis travel start i toggle))) False m)"
  have m1: "moves ?m1 = moves m @ [?f toggle i i]"
    by (simp add: movePenAbs_frame)
  show ?case
  proof (cases "int (i + 1) \<le> its")
    case True
    then have n: "max i (nat its) = nat its" "max (i + 1) (nat its) = nat its" "i < nat its + 1"
      by linarith+
    have "moves (fst (wiggleSlave cfg axis travel its start i toggle m)) =
          moves (fst (wiggleSlave cfg axis travel its start (i + 1) (\<not> toggle) ?m1))"
      using True by (subst wiggleSlave.simps) (simp add: Let_def)
    also have "\<dots> = moves ?m1 @ map (?f (\<not> toggle) (i + 1)) [i + 1 ..< max (i + 1) (nat its) + 1] @
         [(Fin (fst start), Fin (snd start))]"
      using "1.IH" [OF refl refl True] by simp
    also have "map (?f (\<not> toggle) (i + 1)) [i + 1 ..< max (i + 1) (nat its) + 1] =
               map (?f toggle i) [i + 1 ..< nat its + 1]"
      unfolding n(2)
    proof (rule map_cong [OF refl])
      fix k assume "k \<in> set [i + 1 ..< nat its + 1]"
      then have "i + 1 \<le> k" by auto
      then have "k - i = Suc (k - (i + 1))" by arith
      then have "((\<not> toggle) = even (k - (i + 1))) = (toggle = even (k - i))"
        by (cases toggle) simp_all
      then show "?f (\<not> toggle) (i + 1) k = ?f toggle i k" by simp
    qed
    also have "moves ?m1 @ map (?f toggle i) [i + 1 ..< nat its + 1] @
                 [(Fin (fst start), Fin (snd start))] =
               moves m @ map (?f toggle i) [i ..< max i (nat its) + 1] @
                 [(Fin (fst start), Fin (snd start))]"
    proof -
      have "[i ..< nat its + 1] = i # [i + 1 ..< nat its + 1]"
        using n(3) by (simp add: upt_conv_Cons del: upt_Suc)
      then show ?thesis unfolding n m1 by (simp del: upt_Suc)
    qed
    finally show ?thesis .
  next
    case False
    then have n: "max i (nat its) = i" by linarith
    have "moves (fst (wiggleSlave cfg axis travel its start i toggle m)) =
          moves (fst (movePenAbs cfg (Fin (fst start), Fin (snd start)) False ?m1))"
      using False by (subst wiggleSlave.simps) (simp add: Let_def)
    also have "\<dots> = moves ?m1 @ [(Fin (fst start), Fin (snd start))]"
      by (simp add: movePenAbs_frame)
    finally show ?thesis unfolding n m1 by simp
  qed
qed

lemma wigglePen_moves:
  "moves (fst (wigglePen cfg axis travel (int N) m)) =
     moves m @
     map (\<lambda>k. (Fin (fst (wigglePoint axis travel (pen_x (pen m), pen_y (pen m)) k (even k))),
               Fin (snd (wigglePoint axis travel (pen_x (pen m), pen_y (pen m)) k (even k)))))
       [0 ..< N + 1] @
     [(Fin (pen_x (pen m)), Fin (pen_y (pen m)))]"
  by (simp add: wigglePen_def wiggleSlave_moves)

lemma wigglePoint_xy:
  "wigglePoint ''xy'' travel start i toggle =
     (if toggle
      then (fst start, snd start + (if i mod 4 = 1 \<or> i mod 4 = 2 then travel / 2 else - (travel / 2)))
      else (fst start + (if i mod 4 = 1 \<or> i mod 4 = 2 then - travel else travel), snd start))"
proof -
  have "i mod 4 = 0 \<or> i mod 4 = 1 \<or> i mod 4 = 2 \<or> i mod 4 = 3" by presburger
  then show ?thesis by (auto simp: wigglePoint_def Let_def)
qed

lemma wigglePen_nth:
  assumes "i \<le> N"
  shows "moves (fst (wigglePen cfg axis travel (int N) m)) ! (length (moves m) + i) =
     (Fin (fst (wigglePoint axis travel (pen_x (pen m), pen_y (pen m)) i (even i))),
      Fin (snd (wigglePoint axis travel (pen_x (pen m), pen_y (pen m)) i (even i))))"
proof -
  have "i < length [0 ..< N + 1]" using assms by simp
  then show ?thesis
    unfolding wigglePen_moves by (simp add: nth_append del: upt_Suc)
qed

text \<open>
  Claim C2, as amended.  For every axis, travel and iteration count \<open>N\<close>,
  \<^verbatim>\<open>wigglePen\<close> calls \<^verbatim>\<open>movePenAbs\<close> exactly \<open>N + 2\<close> times: with the
  \<open>N + 1\<close> wiggle points of the steps 0 to \<open>N\<close>, the toggle being true at the
  even steps, and then with the starting position, the position of the pen at entry,
  which is the last point emitted.
\<close>

theorem wigglePen_emissions:
  "moves (fst (wigglePen cfg axis travel (int N) m)) =
     moves m @
     map (\<lambda>k. (Fin (fst (wigglePoint axis travel (pen_x (pen m), pen_y (pen m)) k (even k))),
               Fin (snd (wigglePoint axis travel (pen_x (pen m), pen_y (pen m)) k (even k)))))
       [0 ..< N + 1] @
     [(Fin (pen_x (pen m)), Fin (pen_y (pen m)))] \<and>
   length (moves (fst (wigglePen cfg axis travel (int N) m))) = length (moves m) + (N + 2) \<and>
   last (moves (fst (wigglePen cfg axis travel (int N) m))) =
     (Fin (pen_x (pen m)), Fin (pen_y (pen m)))"
  unfolding wigglePen_moves by simp

theorem wigglePen_emissions_witness:
  "length (moves (fst (wigglePen example_config ''x'' 10 (int 4) initial_machine))) = 6 \<and>
   last (moves (fst (wigglePen example_config ''x'' 10 (int 4) initial_machine))) = (Fin 0, Fin 0)"
  using wigglePen_emissions
    [where cfg = example_config and axis = "''x''" and travel = 10 and N = 4
       and m = initial_machine]
  by (simp add: example_values)

text \<open>
  Claim C2 as stated fails: with one iteration on the example bot, \<^verbatim>\<open>wigglePen\<close>
  emits three points, not \<open>N + 1 = 2\<close>.
\<close>

theorem wigglePen_emissions_not_N_plus_1:
  "length (moves (fst (wigglePen example_config ''x'' 10 (int 1) initial_machine)))
     - length (moves initial_machine) = 3 \<and>
   length (moves (fst (wigglePen example_config ''x'' 10 (int 1) initial_machine)))
     - length (moves initial_machine) \<noteq> 1 + 1"
  unfolding wigglePen_moves by (simp add: example_values)

text \<open>
  Claim C3, as amended.  In the two-axis mode the toggle, which is true at step 0
  and flips at every step, chooses the axis, and \<open>rot = i mod 4\<close> chooses the sign:
  a true toggle offsets the start by half the travel on the vertical axis (downwards
  for \<open>rot\<close> 1 or 2, upwards otherwise), a false one by the full travel on the
  horizontal axis (to the left for \<open>rot\<close> 1 or 2, to the right otherwise).  So the
  steps \<open>i \<le> N\<close> of \<^verbatim>\<open>wigglePen\<close> emit, by \<open>rot\<close> 0, 1, 2, 3: up by half the
  travel, left by the travel, down by half the travel, right by the travel.
\<close>

theorem wiggle_xy_diamond:
  "(i \<le> N \<longrightarrow>
      moves (fst (wigglePen cfg ''xy'' travel (int N) m)) ! (length (moves m) + i) =
        (if i mod 4 = 0 then (Fin (pen_x (pen m)), Fin (pen_y (pen m) - travel / 2))
         else if i mod 4 = 1 then (Fin (pen_x (pen m) - travel), Fin (pen_y (pen m)))
         else if i mod 4 = 2 then (Fin (pen_x (pen m)), Fin (pen_y (pen m) + travel / 2))
         else (Fin (pen_x (pen m) + travel), Fin (pen_y (pen m)))) \<and>
      moves (fst (wigglePen cfg ''xy'' travel (int N) m)) ! (length (moves m) + i) =
        (Fin (fst (wigglePoint ''xy'' travel (pen_x (pen m), pen_y (pen m)) i (even i))),
         Fin (snd (wigglePoint ''xy'' travel (pen_x (pen m), pen_y (pen m)) i (even i))))) \<and>
   wigglePoint ''xy'' travel start i toggle =
     (if toggle
      then (fst start, snd start + (if i mod 4 = 1 \<or> i mod 4 = 2 then travel / 2 else - (travel / 2)))
      else (fst start + (if i mod 4 = 1 \<or> i mod 4 = 2 then - travel else travel), snd start))"
proof -
  have A: "moves (fst (wigglePen cfg ''xy'' travel (int N) m)) ! (length (moves m) + i) =
        (Fin (fst (wigglePoint ''xy'' travel (pen_x (pen m), pen_y (pen m)) i (even i))),
         Fin (snd (wigglePoint ''xy'' travel (pen_x (pen m), pen_y (pen m)) i (even i))))"
    if "i \<le> N" using that by (rule wigglePen_nth)
  have cases4: "i mod 4 = 0 \<or> i mod 4 = 1 \<or> i mod 4 = 2 \<or> i mod 4 = 3" by presburger
  have ev: "even i \<longleftrightarrow> (i mod 4 = 0 \<or> i mod 4 = 2)" by presburger
  have B: "(Fin (fst (wigglePoint ''xy'' travel (pen_x (pen m), pen_y (pen m)) i (even i))),
         Fin (snd (wigglePoint ''xy'' travel (pen_x (pen m), pen_y (pen m)) i (even i)))) =
        (if i mod 4 = 0 then (Fin (pen_x (pen m)), Fin (pen_y (pen m) - travel / 2))
         else if i mod 4 = 1 then (Fin (pen_x (pen m) - travel), Fin (pen_y (pen m)))
         else if i mod 4 = 2 then (Fin (pen_x (pen m)), Fin (pen_y (pen m) + travel / 2))
         else (Fin (pen_x (pen m) + travel), Fin (pen_y (pen m))))"
    using cases4 unfolding wigglePoint_xy ev by auto
  from A B wigglePoint_xy show ?thesis by simp
qed

theorem wiggle_xy_diamond_witness:
  "moves (fst (wigglePen example_config ''xy'' 10 (int 4) initial_machine)) ! 1 = (Fin (- 10), Fin 0) \<and>
   moves (fst (wigglePen example_config ''xy'' 10 (int 4) initial_machine)) ! 2 = (Fin 0, Fin 5)"
proof -
  have "(1::nat) \<le> 4 \<longrightarrow>
      moves (fst (wigglePen example_config ''xy'' 10 (int 4) initial_machine))
        ! (length (moves initial_machine) + 1) =
        (Fin (pen_x (pen initial_machine) - 10), Fin (pen_y (pen initial_machine)))"
    using wiggle_xy_diamond
      [where cfg = example_config and travel = 10 and N = 4 and m = initial_machine and i = 1]
    by simp
  then have a: "moves (fst (wigglePen example_config ''xy'' 10 (int 4) initial_machine)) ! 1
      = (Fin (- 10), Fin 0)"
    by (simp add: example_values)
  have "(2::nat) \<le> 4 \<longrightarrow>
      moves (fst (wigglePen example_config ''xy'' 10 (int 4) initial_machine))
        ! (length (moves initial_machine) + 2) =
        (Fin (pen_x (pen initial_machine)), Fin (pen_y (pen initial_machine) + 10 / 2))"
    using wiggle_xy_diamond
      [where cfg = example_config and travel = 10 and N = 4 and m = initial_machine and i = 2]
    by simp
  then have b: "moves (fst (wigglePen example_config ''xy'' 10 (int 4) initial_machine)) ! 2
      = (Fin 0, Fin 5)"
    by (simp add: example_values numeral_2_eq_2)
  from a b show ?thesis by blast
qed

text \<open>
  Claim C3 as stated fails at step 0: \<open>rot\<close> is 0, not odd, and yet the point
  emitted is the start moved by half the travel on the vertical axis, not by the
  full travel on the horizontal one.
\<close>

theorem wiggle_xy_step_0_is_vertical:
  "moves (fst (wigglePen example_config ''xy'' 10 (int 4) initial_machine)) ! 0 = (Fin 0, Fin (- 5)) \<and>
   \<not> spec_xy_step 10 (pen_x (pen initial_machine), pen_y (pen initial_machine)) 0 (0, - 5)"
proof -
  have "moves (fst (wigglePen example_config ''xy'' 10 (int 4) initial_machine))
          ! (length (moves initial_machine) + 0) =
     (Fin (fst (wigglePoint ''xy'' 10 (pen_x (pen initial_machine), pen_y (pen initial_machine))
                  0 (even (0::nat)))),
      Fin (snd (wigglePoint ''xy'' 10 (pen_x (pen initial_machine), pen_y (pen initial_machine))
                  0 (even (0::nat)))))"
    by (rule wigglePen_nth) simp
  then have "moves (fst (wigglePen example_config ''xy'' 10 (int 4) initial_machine)) ! 0
      = (Fin 0, Fin (- 5))"
    by (simp add: example_values wigglePoint_xy)
  moreover have "\<not> spec_xy_step 10 (pen_x (pen initial_machine), pen_y (pen initial_machine)) 0 (0, - 5)"
    by (simp add: spec_xy_step_def example_values)
  ultimately show ?thesis by blast
qed

section \<open>Simulation mode\<close>

lemma wiggleSlave_simulation:
  "pen_simulation (pen m) \<Longrightarrow>
   written (fst (wiggleSlave cfg axis travel its start i toggle m)) = written m \<and>
   pen_simulation (pen (fst (wiggleSlave cfg axis travel its start i toggle m)))"
proof (induction cfg axis travel its start i toggle m rule: wiggleSlave.induct)
  case (1 cfg axis travel its start i toggle m)
  let ?m1 = "fst (movePenAbs cfg (Fin (fst (wigglePoint axis travel start i toggle)),
                 Fin (snd (wigglePoint axis travel start i toggle))) False m)"
  have m1: "written ?m1 = written m" "pen_simulation (pen ?m1)"
    using "1.prems" by (simp_all add: movePenAbs_written_sim movePenAbs_frame)
  show ?case
  proof (cases "int (i + 1) \<le> its")
    case True
    have "wiggleSlave cfg axis travel its start i toggle m =
          wiggleSlave cfg axis travel its start (i + 1) (\<not> toggle) ?m1"
      using True by (subst wiggleSlave.simps) (simp add: Let_def)
    with "1.IH" [OF refl refl True m1(2)] m1 show ?thesis by simp
  next
    case False
    have "fst (wiggleSlave cfg axis travel its start i toggle m) =
          fst (movePenAbs cfg (Fin (fst start), Fin (snd start)) False ?m1)"
      using False by (subst wiggleSlave.simps) (simp add: Let_def)
    with m1 show ?thesis by (simp add: movePenAbs_written_sim movePenAbs_frame)
  qed
qed

lemma wigglePen_simulation:
  "pen_simulation (pen m) \<Longrightarrow>
   written (fst (wigglePen cfg axis travel its m)) = written m \<and>
   pen_simulation (pen (fst (wigglePen cfg axis travel its m)))"
  unfolding wigglePen_def by (rule wiggleSlave_simulation)

lemma setTool_simulation:
  assumes "pen_simulation (pen m)"
  shows "written (fst (setTool cfg name m)) = written m"
proof -
  let ?m1 = "fst (setHeight cfg (SName ''up'') True m)"
  have m1: "written ?m1 = written m" "pen_simulation (pen ?m1)"
    using assms by (simp_all add: setHeight_written_sim setHeight_frame)
  show ?thesis
  proof (cases "tools cfg name")
    case None
    with m1 show ?thesis by (simp add: setTool_def Let_def)
  next
    case (Some t)
    let ?m2 = "fst (movePenAbs cfg (tool_x t, tool_y t) False ?m1)"
    let ?m3 = "fst (setHeight cfg
                 (SName (if sublist ''water'' name then ''wash'' else ''paint'')) True ?m2)"
    let ?m4 = "fst (wigglePen cfg (wiggleAxis t) (wiggleTravel t) (wiggleIterations t) ?m3)"
    have m2: "written ?m2 = written m" "pen_simulation (pen ?m2)"
      using m1 by (simp_all add: movePenAbs_written_sim movePenAbs_frame)
    have m3: "written ?m3 = written m" "pen_simulation (pen ?m3)"
      using m2 by (simp_all add: setHeight_written_sim setHeight_frame)
    have m4: "written ?m4 = written m" "pen_simulation (pen ?m4)"
      using m3 wigglePen_simulation [of ?m3] by simp_all
    have "fst (setTool cfg name m) = fst (setHeight cfg (SName ''up'') True ?m4)"
      using Some by (simp add: setTool_def Let_def)
    with m4 show ?thesis by (simp add: setHeight_written_sim)
  qed
qed

lemma setTool_outcome:
  "tools cfg name = Some t \<Longrightarrow>
   snd (setTool cfg name m) = Called (\<not> (isNaN (tool_x t) \<or> isNaN (tool_y t)))"
  by (simp add: setTool_def Let_def movePenAbs_outcome)

lemma setPen_position_simulation:
  "pen_simulation (pen m) \<Longrightarrow> written (fst (setPen_position cfg r m)) = written m"
  by (cases "num_of (req_x r)"; cases "num_of (req_y r)")
     (simp_all add: setPen_position_def Let_def movePenAbs_written_sim)

lemma setPen_simulation:
  "pen_simulation (pen m) \<Longrightarrow> written (fst (setPen cfg r m)) = written m"
  by (simp add: setPen_def connectSerial_def simulationModeInit_def Let_def
        setHeight_written_sim setPen_position_simulation split: option.splits)

lemma setPen_position_outcome:
  assumes "isFinite (num_of (req_x r))" "isFinite (num_of (req_y r))"
    "\<not> (req_park r \<and> pen_x (pen m) = 0 \<and> pen_y (pen m) = 0)"
  shows "snd (setPen_position cfg r m) = Called True"
proof -
  from assms obtain xr yr where "num_of (req_x r) = Fin xr" "num_of (req_y r) = Fin yr"
    by (metis isFinite.elims(2))
  with assms(3) show ?thesis
    by (auto simp: setPen_position_def Let_def movePenAbs_outcome)
qed

text \<open>
  Claim C8.  While the simulation flag is true, no operation writes to the serial
  port: not \<^verbatim>\<open>serialCommand\<close> (which still takes the command and calls back with
  \<^verbatim>\<open>true\<close>), not a move, a \<^verbatim>\<open>setPen\<close> request, a height change, a tool change
  or the motor disable.  And the operations complete with success: a move to valid
  coordinates, a move request that is valid and is not a park at the origin, a
  height change with a callback, a change to a tool of the configuration with a
  valid position, and the motor disable all call back with \<^verbatim>\<open>true\<close>.
\<close>

theorem simulation_writes_nothing:
  "pen_simulation (pen m) \<longrightarrow>
   written (fst (serialCommand c m)) = written m \<and>
   issued (fst (serialCommand c m)) = issued m @ [c] \<and>
   snd (serialCommand c m) = True \<and>
   written (fst (movePenAbs cfg point imm m)) = written m \<and>
   (\<not> isNaN (fst point) \<and> \<not> isNaN (snd point) \<longrightarrow>
      fst (snd (movePenAbs cfg point imm m)) = Called True) \<and>
   written (fst (setPen cfg r m)) = written m \<and>
   (position_request r m \<and> isFinite (num_of (req_x r)) \<and> isFinite (num_of (req_y r)) \<and>
    \<not> (req_park r \<and> pen_x (pen m) = 0 \<and> pen_y (pen m) = 0) \<longrightarrow>
      snd (setPen cfg r m) = Called True) \<and>
   written (fst (setHeight cfg h cb m)) = written m \<and>
   (cb \<longrightarrow> snd (setHeight cfg h cb m) = Called True) \<and>
   written (fst (setTool cfg name m)) = written m \<and>
   (\<forall>t. tools cfg name = Some t \<and> \<not> isNaN (tool_x t) \<and> \<not> isNaN (tool_y t) \<longrightarrow>
      snd (setTool cfg name m) = Called True) \<and>
   written (fst (disableMotors m)) = written m \<and>
   snd (disableMotors m) = Called True"
proof
  assume sim: "pen_simulation (pen m)"
  have 1: "written (fst (serialCommand c m)) = written m \<and>
           issued (fst (serialCommand c m)) = issued m @ [c] \<and>
           snd (serialCommand c m) = True"
    using sim by simp
  have 2: "written (fst (movePenAbs cfg point imm m)) = written m"
    using sim by (rule movePenAbs_written_sim)
  have 3: "fst (snd (movePenAbs cfg point imm m)) = Called True"
    if "\<not> isNaN (fst point) \<and> \<not> isNaN (snd point)"
    using that by (simp add: movePenAbs_outcome)
  have 4: "written (fst (setPen cfg r m)) = written m"
    using sim by (rule setPen_simulation)
  have 5: "snd (setPen cfg r m) = Called True"
    if "position_request r m \<and> isFinite (num_of (req_x r)) \<and> isFinite (num_of (req_y r)) \<and>
        \<not> (req_park r \<and> pen_x (pen m) = 0 \<and> pen_y (pen m) = 0)"
    using that by (simp add: setPen_position_stage setPen_position_outcome)
  have 6: "written (fst (setHeight cfg h cb m)) = written m"
    using sim by (rule setHeight_written_sim)
  have 7: "cb \<longrightarrow> snd (setHeight cfg h cb m) = Called True"
    by (simp add: setHeight_result)
  have 8: "written (fst (setTool cfg name m)) = written m"
    using sim by (rule setTool_simulation)
  have 9: "snd (setTool cfg name m) = Called True"
    if "tools cfg name = Some t \<and> \<not> isNaN (tool_x t) \<and> \<not> isNaN (tool_y t)" for t
    using that by (simp add: setTool_outcome)
  have 10: "written (fst (disableMotors m)) = written m \<and> snd (disableMotors m) = Called True"
    using sim by (simp add: disableMotors_def Let_def)
  from 1 2 3 4 5 6 7 8 9 10
  show "written (fst (serialCommand c m)) = written m \<and>
   issued (fst (serialCommand c m)) = issued m @ [c] \<and>
   snd (serialCommand c m) = True \<and>
   written (fst (movePenAbs cfg point imm m)) = written m \<and>
   (\<not> isNaN (fst point) \<and> \<not> isNaN (snd point) \<longrightarrow>
      fst (snd (movePenAbs cfg point imm m)) = Called True) \<and>
   written (fst (setPen cfg r m)) = written m \<and>
   (position_request r m \<and> isFinite (num_of (req_x r)) \<and> isFinite (num_of (req_y r)) \<and>
    \<not> (req_park r \<and> pen_x (pen m) = 0 \<and> pen_y (pen m) = 0) \<longrightarrow>
      snd (setPen cfg r m) = Called True) \<and>
   written (fst (setHeight cfg h cb m)) = written m \<and>
   (cb \<longrightarrow> snd (setHeight cfg h cb m) = Called True) \<and>
   written (fst (setTool cfg name m)) = written m \<and>
   (\<forall>t. tools cfg name = Some t \<and> \<not> isNaN (tool_x t) \<and> \<not> isNaN (tool_y t) \<longrightarrow>
      snd (setTool cfg name m) = Called True) \<and>
   written (fst (disableMotors m)) = written m \<and>
   snd (disableMotors m) = Called True"
    by blast
qed

theorem simulation_witness:
  "written (fst (setPen example_config (move_request 30 50) (simulationModeInit initial_machine))) = [] \<and>
   snd (setPen example_config (move_request 30 50) (simulationModeInit initial_machine)) = Called True \<and>
   written (fst (setHeight example_config (SNum 1) True (simulationModeInit initial_machine))) = [] \<and>
   snd (setHeight example_config (SNum 1) True (simulationModeInit initial_machine)) = Called True \<and>
   written (fst (setTool example_config ''color0'' (simulationModeInit initial_machine))) = [] \<and>
   snd (setTool example_config ''color0'' (simulationModeInit initial_machine)) = Called True \<and>
   written (fst (disableMotors (simulationModeInit initial_machine))) = [] \<and>
   snd (disableMotors (simulationModeInit initial_machine)) = Called True"
proof -
  note t = simulation_writes_nothing
    [where m = "simulationModeInit initial_machine" and cfg = example_config
       and r = "move_request 30 50" and h = "SNum 1" and cb = True and name = "''color0''"]
  have sim: "pen_simulation (pen (simulationModeInit initial_machine))"
    by (simp add: simulationModeInit_def)
  have w: "written (simulationModeInit initial_machine) = []"
    by (simp add: simulationModeInit_def example_values)
  have p: "position_request (move_request 30 50) (simulationModeInit initial_machine) \<and>
      isFinite (num_of (req_x (move_request 30 50))) \<and>
      isFinite (num_of (req_y (move_request 30 50))) \<and>
      \<not> (req_park (move_request 30 50) \<and> pen_x (pen (simulationModeInit initial_machine)) = 0 \<and>
           pen_y (pen (simulationModeInit initial_machine)) = 0)"
    by (simp add: position_request_def move_request_def num_of_def)
  have tl: "tools example_config ''color0'' = Some example_tool \<and>
      \<not> isNaN (tool_x example_tool) \<and> \<not> isNaN (tool_y example_tool)"
    by (simp add: example_config_def example_tool_def)
  from t sim p tl w show ?thesis by simp
qed

section \<open>The distance counter\<close>

lemma setPen_position_counter:
  "pen_distanceCounter (pen m) \<le> pen_distanceCounter (pen (fst (setPen_position cfg r m))) \<and>
   (\<not> truthy (pen_state (pen m)) \<longrightarrow>
      pen_distanceCounter (pen (fst (setPen_position cfg r m))) = pen_distanceCounter (pen m))"
  by (cases "num_of (req_x r)"; cases "num_of (req_y r)")
     (simp_all add: setPen_position_def Let_def movePenAbs_frame movePenAbs_distance_nonneg)

lemma setPen_position_counter_sum:
  assumes "req_x r = Some (Fin x)" "req_y r = Some (Fin y)"
    "\<not> (req_park r \<and> pen_x (pen m) = 0 \<and> pen_y (pen m) = 0)"
  shows "pen_distanceCounter (pen (fst (setPen_position cfg r m))) =
     pen_distanceCounter (pen m) +
     (if truthy (pen_state (pen m))
      then snd (snd (movePenAbs cfg
             (Fin (if req_park r then fst (absInput cfg x y) - workArea_left cfg
                   else fst (absInput cfg x y)),
              Fin (if req_park r then snd (absInput cfg x y) - workArea_top cfg
                   else snd (absInput cfg x y)))
             (req_ignoreTimeout r) m))
      else 0)"
  using assms by (auto simp: setPen_position_def Let_def num_of_def movePenAbs_frame)

lemma setPen_position_state:
  "pen_state (pen (fst (setPen_position cfg r m))) = pen_state (pen m)"
  by (cases "num_of (req_x r)"; cases "num_of (req_y r)")
     (simp_all add: setPen_position_def Let_def movePenAbs_frame)

text \<open>
  Over a sequence of plain move requests the counter never decreases, and it stays
  as it is when the state is falsy (the number 0).
\<close>

lemma setPen_seq_counter:
  assumes "\<forall>r \<in> set rs. \<not> req_resetCounter r \<and> req_simulation r = None \<and>
             req_state r = None \<and> req_x r \<noteq> None"
  shows "pen_distanceCounter (pen m) \<le> pen_distanceCounter (pen (setPen_seq cfg rs m)) \<and>
         (\<not> truthy (pen_state (pen m)) \<longrightarrow>
            pen_distanceCounter (pen (setPen_seq cfg rs m)) = pen_distanceCounter (pen m))"
  using assms
proof (induction rs arbitrary: m)
  case Nil
  then show ?case by simp
next
  case (Cons r rs)
  then have pr: "position_request r m" by (simp add: position_request_def)
  let ?m1 = "fst (setPen cfg r m)"
  have eq: "?m1 = fst (setPen_position cfg r m)"
    using pr by (simp add: setPen_position_stage)
  have st: "pen_state (pen ?m1) = pen_state (pen m)"
    unfolding eq by (rule setPen_position_state)
  have c: "pen_distanceCounter (pen m) \<le> pen_distanceCounter (pen ?m1) \<and>
       (\<not> truthy (pen_state (pen m)) \<longrightarrow>
          pen_distanceCounter (pen ?m1) = pen_distanceCounter (pen m))"
    unfolding eq by (rule setPen_position_counter)
  from Cons.prems have "\<forall>r \<in> set rs. \<not> req_resetCounter r \<and> req_simulation r = None \<and>
             req_state r = None \<and> req_x r \<noteq> None" by simp
  from Cons.IH [OF this, of ?m1] c st show ?case by auto
qed

text \<open>
  Claim C1, at the input where the code departs from it.  After
  \<^verbatim>\<open>setHeight('up')\<close> on the initial state the pen state is the string
  \<^verbatim>\<open>'up'\<close>, which is truthy, and the counter is 0; the move request to (30, 50)
  percent then moves the pen by 300 and 400 and adds the distance: the counter is
  500, although the pen is raised.
\<close>

theorem distance_counted_while_up:
  "pen_state (pen (fst (setHeight example_config (SName ''up'') True initial_machine)))
     = SName ''up'' \<and>
   pen_distanceCounter (pen (fst (setHeight example_config (SName ''up'') True initial_machine)))
     = 0 \<and>
   pen_distanceCounter (pen (fst (setPen example_config (move_request 30 50)
       (fst (setHeight example_config (SName ''up'') True initial_machine))))) = 500"
proof -
  let ?m = "fst (setHeight example_config (SName ''up'') True initial_machine)"
  have st: "pen_state (pen ?m) = SName ''up''"
    by (simp add: setHeight_result resolveHeight_name preset_def)
  have fr: "pen_x (pen ?m) = 0" "pen_y (pen ?m) = 0" "pen_distanceCounter (pen ?m) = 0"
    by (simp_all add: setHeight_frame example_values)
  have sq: "sqrt 250000 = 500"
    using real_sqrt_abs [of 500] by simp
  have mv: "snd (snd (movePenAbs example_config (Fin 300, Fin 400) False ?m)) = 500"
    by (simp add: movePenAbs_def Let_def example_values fr sq)
  have pr: "position_request (move_request 30 50) ?m"
    by (simp add: position_request_def move_request_def)
  have ab: "absInput example_config 30 50 = (300, 400)"
    by (simp add: absInput_def Let_def clamp_percent_def example_values)
  have "pen_distanceCounter (pen (fst (setPen_position example_config (move_request 30 50) ?m)))
      = 500"
    using setPen_position_counter_sum [of "move_request 30 50" 30 50 ?m example_config]
    by (simp add: move_request_def st fr ab mv)
  with pr st fr show ?thesis by (simp add: setPen_position_stage)
qed

end
